theory Spec2Isabelle
  imports Main
begin

section \<open>JavaScript values\<close>

text \<open>
  The values the element reads from messages, arguments and tab entries. \<open>JInt\<close> is a
  number with an integral value (the numbers for which \<open>Number.isInteger\<close> holds),
  \<open>JNaN\<close> the number NaN, and \<open>JOpaque\<close> stands for every other value (a non-integral
  number other than NaN, a nested object, a function): such a value is truthy, is not a
  string, is not an integer and is neither null nor undefined, which is all the code asks
  of it. Strings are lists of 8-bit characters; code units above 255 are not represented.
\<close>

datatype jsval = JUndefined | JNull | JBool bool | JInt int | JNaN | JStr string | JOpaque nat

text \<open>An object is given by its own enumerable properties.\<close>

type_synonym jsobj = "string \<Rightarrow> jsval option"

text \<open>
  A payload or an argument: an object, an array (each element given by its own enumerable
  properties, which is all that \<open>{ index, ...tab }\<close>, \<open>tab?.id\<close> and
  \<open>tab?.targetId\<close> read of it), or a value that is neither.
\<close>

datatype jsdata = DPrim jsval | DObject jsobj | DArray "jsobj list"

text \<open>\<open>obj.k\<close>: reading a property that is absent gives undefined.\<close>

definition js_get :: "jsobj \<Rightarrow> string \<Rightarrow> jsval" where
  "js_get obj k = (case obj k of None \<Rightarrow> JUndefined | Some v \<Rightarrow> v)"

fun truthy :: "jsval \<Rightarrow> bool" where
  "truthy JUndefined = False"
| "truthy JNull = False"
| "truthy (JBool b) = b"
| "truthy (JInt i) = (i \<noteq> 0)"
| "truthy JNaN = False"
| "truthy (JStr s) = (s \<noteq> [])"
| "truthy (JOpaque n) = True"

fun nullish :: "jsval \<Rightarrow> bool" where
  "nullish JUndefined = True"
| "nullish JNull = True"
| "nullish v = False"

text \<open>\<open>a || b\<close> and \<open>a ?? b\<close>.\<close>

definition js_or :: "jsval \<Rightarrow> jsval \<Rightarrow> jsval" where
  "js_or a b = (if truthy a then a else b)"

definition js_coalesce :: "jsval \<Rightarrow> jsval \<Rightarrow> jsval" where
  "js_coalesce a b = (if nullish a then b else a)"

text \<open>
  \<open>String.prototype.trim\<close> removes white space and line terminators from both ends;
  among the 8-bit characters these are tab, line feed, vertical tab, form feed, carriage
  return, space and the no-break space.
\<close>

definition js_space :: "char \<Rightarrow> bool" where
  "js_space c = (of_char c \<in> {9, 10, 11, 12, 13, 32, 160 :: nat})"

definition js_trim :: "string \<Rightarrow> string" where
  "js_trim s = rev (dropWhile js_space (rev (dropWhile js_space s)))"

text \<open>\<open>Array.prototype.findIndex\<close>; \<open>None\<close> is the result -1.\<close>

fun findIndex :: "('a \<Rightarrow> bool) \<Rightarrow> 'a list \<Rightarrow> nat option" where
  "findIndex p [] = None"
| "findIndex p (x # xs) = (if p x then Some 0 else map_option Suc (findIndex p xs))"

text \<open>
  \<open>xs.splice(start, 0, x)\<close>: a negative start counts from the end and stops at 0, a
  start beyond the end inserts at the end.
\<close>

definition splice_insert :: "int \<Rightarrow> 'a \<Rightarrow> 'a list \<Rightarrow> 'a list" where
  "splice_insert start x xs =
     (let len = int (length xs);
          rel = (if start < 0 then max (len + start) 0 else min start len)
      in take (nat rel) xs @ x # drop (nat rel) xs)"

section \<open>The tab cache\<close>

text \<open>
  \<open>_normalizeTabId\<close>: the first of \<open>id\<close>, \<open>tabId\<close>, \<open>targetId\<close> that is a non-empty
  string; null (\<open>None\<close>) for a detail that is falsy or not an object, and for an array,
  which has none of the three properties.
\<close>

fun first_id :: "jsval list \<Rightarrow> string option" where
  "first_id [] = None"
| "first_id (JStr s # cs) = (if s \<noteq> [] then Some s else first_id cs)"
| "first_id (c # cs) = first_id cs"

fun normalizeTabId :: "jsdata \<Rightarrow> string option" where
  "normalizeTabId (DObject detail) =
     first_id [js_get detail ''id'', js_get detail ''tabId'', js_get detail ''targetId'']"
| "normalizeTabId d = None"

text \<open>\<open>xs.map((tab, i) => ({ ...tab, index: i }))\<close>\<close>

definition reindex :: "jsobj list \<Rightarrow> jsobj list" where
  "reindex tabs = map (\<lambda>(i, tab). tab(''index'' \<mapsto> JInt (int i))) (enumerate 0 tabs)"

text \<open>
  \<open>_updateLegacyTabCache\<close>. The new entry is
  \<open>{ ...existing, ...detail, index: existing.index ?? detail.index ?? index }\<close>.
\<close>

definition updateLegacyTabCache :: "jsdata \<Rightarrow> jsobj list \<Rightarrow> jsobj list" where
  "updateLegacyTabCache detail cache =
     (case normalizeTabId detail of
        None \<Rightarrow> cache
      | Some tabId \<Rightarrow>
          (case findIndex (\<lambda>tab. normalizeTabId (DObject tab) = Some tabId) cache of
             None \<Rightarrow> cache
           | Some index \<Rightarrow>
               (case detail of
                  DObject d \<Rightarrow>
                    (let existing = cache ! index
                     in cache[index := (existing ++ d)
                          (''index'' \<mapsto>
                             js_coalesce (js_get existing ''index'')
                               (js_coalesce (js_get d ''index'') (JInt (int index))))])
                | _ \<Rightarrow> cache)))"

text \<open>\<open>_addLegacyTabCache\<close>\<close>

definition addLegacyTabCache :: "jsdata \<Rightarrow> jsobj list \<Rightarrow> jsobj list" where
  "addLegacyTabCache detail cache =
     (case normalizeTabId detail of
        None \<Rightarrow> cache
      | Some tabId \<Rightarrow>
          (case findIndex (\<lambda>tab. normalizeTabId (DObject tab) = Some tabId) cache of
             Some existingIndex \<Rightarrow> updateLegacyTabCache detail cache
           | None \<Rightarrow>
               (case detail of
                  DObject d \<Rightarrow>
                    (let index = (case js_get d ''index'' of
                                    JInt k \<Rightarrow> k
                                  | _ \<Rightarrow> int (length cache));
                         entry = d(''index'' \<mapsto> JInt index)
                     in reindex
                          (splice_insert (min index (int (length cache))) entry cache))
                | _ \<Rightarrow> cache)))"

text \<open>\<open>_removeLegacyTabCache\<close>\<close>

definition removeLegacyTabCache :: "jsdata \<Rightarrow> jsobj list \<Rightarrow> jsobj list" where
  "removeLegacyTabCache detail cache =
     (case normalizeTabId detail of
        None \<Rightarrow> cache
      | Some tabId \<Rightarrow>
          reindex (filter (\<lambda>tab. normalizeTabId (DObject tab) \<noteq> Some tabId) cache))"

text \<open>
  The three notifications that maintain the cache (\<open>tab-created\<close>, \<open>tab-updated\<close>,
  \<open>tab-closed\<close>), and a sequence of them run from the empty cache of a fresh session.
\<close>

datatype cache_op = Insert jsdata | Update jsdata | Remove jsdata

fun apply_cache_op :: "jsobj list \<Rightarrow> cache_op \<Rightarrow> jsobj list" where
  "apply_cache_op cache (Insert d) = addLegacyTabCache d cache"
| "apply_cache_op cache (Update d) = updateLegacyTabCache d cache"
| "apply_cache_op cache (Remove d) = removeLegacyTabCache d cache"

definition run_cache_ops :: "cache_op list \<Rightarrow> jsobj list" where
  "run_cache_ops ops = foldl apply_cache_op [] ops"

text \<open>Every entry's \<open>index\<close> field is its position in the list.\<close>

definition indexed :: "jsobj list \<Rightarrow> bool" where
  "indexed cache = list_all (\<lambda>(i, tab). js_get tab ''index'' = JInt (int i)) (enumerate 0 cache)"

section \<open>The element's state\<close>

datatype transport = Unknown | Modern | Legacy

text \<open>
  A request id \<open>bbx-${Date.now()}-${++this._requestSeq}\<close> is given by its two numbers.
  The data of a request is \<open>{}\<close> or \<open>{ method, args }\<close>.
\<close>

type_synonym reqid = "nat \<times> nat"

datatype reqdata = NoData | ApiCall string "jsdata list"

text \<open>
  The messages posted to the frame's window: the liveness probe \<open>{ type: 'init' }\<close>, a
  tracked request \<open>{ type, requestId, data }\<close>, and the untracked legacy messages
  \<open>{ type, tabId, data: {} }\<close> and \<open>{ type, tabId, data: { url } }\<close>.
\<close>

datatype message =
    Init
  | Request string reqid reqdata
  | TabCommand string jsval
  | TabUrlCommand string jsval string

text \<open>
  The errors a request's promise is rejected with: the frame has no window
  (\<open>browserbox-webview iframe is not ready.\<close>), the timeout of a request of a type after
  so many milliseconds, the error text of the peer's response, and the reason of a bulk
  cancellation.
\<close>

datatype reason = IframeNotReady | TimedOut string int | PeerError string | Cancelled string

datatype settlement = Resolved jsdata | Rejected reason

text \<open>
  The timers of \<open>setTimeout\<close>: the timeout of a request (its id, type and delay) and
  the backoff of a frame reload (the source to assign and the delay). The probe interval
  of \<open>setInterval\<close> is the flag \<open>initPingTimer\<close> of the state.
\<close>

datatype timer = RequestTimeout reqid string int | RetryReload string int

text \<open>The custom events the element dispatches.\<close>

datatype event =
    ReadyEvent string
  | ApiReadyEvent jsdata
  | ReadyTimeoutEvent int
  | IframeRetryEvent nat nat int
  | ConnectFailedEvent string nat nat
  | PassthroughEvent string jsdata

text \<open>
  The fields of the element, then what it reads of its surroundings (whether the frame
  has a window, the frame's source, two attributes, the clock, the armed timers), then
  what it does to them (the messages posted, the events dispatched, and every call of a
  pending request's \<open>resolve\<close> or \<open>reject\<close>). \<open>_pending\<close> is a Map in insertion
  order; an entry holds the request's timer. \<open>requestTimeoutAttr\<close> is the number that
  \<open>Number.parseInt\<close> reads from \<open>request-timeout-ms\<close>, \<open>None\<close> when that is not finite.
\<close>

record state =
  requestSeq :: nat
  pending :: "(reqid \<times> timer) list"
  apiMethods :: "string list"
  isReady :: bool
  initPingTimer :: bool
  transportMode :: transport
  legacyTabsCache :: "jsobj list"
  iframeRetryCount :: nat
  iframeRetryMax :: nat
  iframeRetryPingThreshold :: nat
  initPingCount :: nat
  reconnectStopped :: bool
  contentWindow :: bool
  iframeSrc :: string
  parentOriginAttr :: "string option"
  requestTimeoutAttr :: "int option"
  clock :: nat
  timers :: "timer list"
  outbox :: "message list"
  events :: "event list"
  settled :: "(reqid \<times> settlement) list"

text \<open>The state the constructor leaves, before the element is attached.\<close>

definition constructed :: state where
  "constructed =
     \<lparr> requestSeq = 0, pending = [], apiMethods = [], isReady = False,
       initPingTimer = False, transportMode = Unknown, legacyTabsCache = [],
       iframeRetryCount = 0, iframeRetryMax = 5, iframeRetryPingThreshold = 10,
       initPingCount = 0, reconnectStopped = False, contentWindow = False,
       iframeSrc = [], parentOriginAttr = None, requestTimeoutAttr = None, clock = 0,
       timers = [], outbox = [], events = [], settled = [] \<rparr>"

text \<open>
  \<open>connectedCallback\<close>: attached to a document the frame has a window, and
  \<open>updateIframe\<close> assigns the \<open>login-link\<close> attribute, when there is one, as the
  frame's source.
\<close>

definition connectedCallback :: "string option \<Rightarrow> state \<Rightarrow> state" where
  "connectedCallback loginLink st =
     (let st1 = st\<lparr>contentWindow := True\<rparr>
      in case loginLink of
           None \<Rightarrow> st1
         | Some link \<Rightarrow> if link = [] then st1 else st1\<lparr>iframeSrc := link\<rparr>)"

definition requestTimeoutMs :: "state \<Rightarrow> int" where
  "requestTimeoutMs st =
     (case requestTimeoutAttr st of
        None \<Rightarrow> 30000
      | Some parsed \<Rightarrow> if parsed < 100 then 30000 else parsed)"

definition allowedOrigin :: "state \<Rightarrow> string" where
  "allowedOrigin st =
     (case parentOriginAttr st of
        None \<Rightarrow> ''*''
      | Some configured \<Rightarrow> if configured \<noteq> [] \<and> configured \<noteq> ''*'' then configured else ''*'')"

definition validateIncomingOrigin :: "string \<Rightarrow> state \<Rightarrow> bool" where
  "validateIncomingOrigin orig st = (allowedOrigin st = ''*'' \<or> orig = allowedOrigin st)"

section \<open>The pending-request ledger\<close>

definition postRaw :: "message \<Rightarrow> state \<Rightarrow> state" where
  "postRaw msg st = (if \<not> contentWindow st then st else st\<lparr>outbox := outbox st @ [msg]\<rparr>)"

definition clearTimeout :: "timer \<Rightarrow> state \<Rightarrow> state" where
  "clearTimeout t st = st\<lparr>timers := remove1 t (timers st)\<rparr>"

definition pending_delete :: "reqid \<Rightarrow> state \<Rightarrow> state" where
  "pending_delete rid st = st\<lparr>pending := filter (\<lambda>e. fst e \<noteq> rid) (pending st)\<rparr>"

text \<open>A call of the \<open>resolve\<close> or \<open>reject\<close> that a ledger entry holds.\<close>

definition settle_promise :: "reqid \<Rightarrow> settlement \<Rightarrow> state \<Rightarrow> state" where
  "settle_promise rid s st = st\<lparr>settled := settled st @ [(rid, s)]\<rparr>"

text \<open>
  \<open>_request\<close>. Without a window the promise is rejected at once and nothing is
  allocated. Otherwise the timeout is \<open>options.timeoutMs\<close> raised to 100 when that is
  given (every caller in this file gives an integer), else \<open>requestTimeoutMs\<close>; the
  entry and its timer are stored and the message is posted.
\<close>

definition request :: "string \<Rightarrow> reqdata \<Rightarrow> int option \<Rightarrow> state \<Rightarrow> (reason + reqid) \<times> state" where
  "request rtype rdata timeoutOpt st =
     (if \<not> contentWindow st then (Inl IframeNotReady, st)
      else
        (let timeoutMs = (case timeoutOpt of
                            Some t \<Rightarrow> max 100 t
                          | None \<Rightarrow> requestTimeoutMs st);
             requestSeq' = requestSeq st + 1;
             requestId = (clock st, requestSeq');
             timer = RequestTimeout requestId rtype timeoutMs
         in (Inr requestId,
             st\<lparr>requestSeq := requestSeq',
                timers := timers st @ [timer],
                pending := pending st @ [(requestId, timer)],
                outbox := outbox st @ [Request rtype requestId rdata]\<rparr>)))"

text \<open>\<open>_rejectPending\<close>\<close>

definition rejectPending :: "reason \<Rightarrow> state \<Rightarrow> state" where
  "rejectPending err st =
     (foldl (\<lambda>s e. settle_promise (fst e) (Rejected err) (clearTimeout (snd e) s)) st (pending st))
       \<lparr>pending := []\<rparr>"

text \<open>
  An inbound message event: whether its source is the frame's window, its origin, and of
  its payload the type (when a string), the request id (when it has the form of the
  element's ids; any other value is in no ledger), the text of \<open>error\<close> (empty when
  falsy), \<open>data\<close>, and \<open>data.methods\<close> when that is an array.
\<close>

record inbound =
  fromFrame :: bool
  origin :: string
  ptype :: "string option"
  prequestId :: "reqid option"
  perror :: string
  pdata :: jsdata
  pmethods :: "string list option"

text \<open>
  The settlement of \<open>_handleMessage\<close> (lines 385 to 395): \<open>None\<close> when the payload
  carries no id of a ledger entry, and the handler goes on; else the state it returns
  with.
\<close>

definition settle :: "inbound \<Rightarrow> state \<Rightarrow> state option" where
  "settle p st =
     (case prequestId p of
        None \<Rightarrow> None
      | Some rid \<Rightarrow>
          (case map_of (pending st) rid of
             None \<Rightarrow> None
           | Some t \<Rightarrow>
               Some (settle_promise rid
                       (if perror p \<noteq> [] then Rejected (PeerError (perror p))
                        else Resolved (pdata p))
                       (pending_delete rid (clearTimeout t st)))))"

section \<open>Readiness and the liveness prober\<close>

definition stopInitPing :: "state \<Rightarrow> state" where
  "stopInitPing st = st\<lparr>initPingTimer := False\<rparr>"

definition setReady :: "state \<Rightarrow> state" where
  "setReady st =
     (if \<not> isReady st
      then stopInitPing (st\<lparr>isReady := True, iframeRetryCount := 0, reconnectStopped := False\<rparr>)
      else st)"

definition dispatchEvent :: "event \<Rightarrow> state \<Rightarrow> state" where
  "dispatchEvent e st = st\<lparr>events := events st @ [e]\<rparr>"

definition stopReconnectAttempts :: "string \<Rightarrow> state \<Rightarrow> state" where
  "stopReconnectAttempts why st =
     rejectPending (Cancelled (''browserbox-webview reconnect stopped ('' @ why @ '')''))
       (stopInitPing (st\<lparr>reconnectStopped := True\<rparr>))"

text \<open>\<open>_retryIframeLoad\<close>; the delay is \<open>Math.min(2000 * this._iframeRetryCount, 8000)\<close>.\<close>

definition retryIframeLoad :: "state \<Rightarrow> state" where
  "retryIframeLoad st =
     (let st1 = stopInitPing st;
          st2 = st1\<lparr>iframeRetryCount := iframeRetryCount st1 + 1\<rparr>;
          src = iframeSrc st2
      in if src = [] then st2
         else
           (let delay = min (2000 * int (iframeRetryCount st2)) 8000;
                st3 = dispatchEvent
                        (IframeRetryEvent (iframeRetryCount st2) (iframeRetryMax st2) delay) st2
            in st3\<lparr>timers := timers st3 @ [RetryReload src delay]\<rparr>))"

text \<open>\<open>_startInitPing\<close>, up to the interval it arms.\<close>

definition startInitPing :: "state \<Rightarrow> state" where
  "startInitPing st =
     (if reconnectStopped st then st
      else
        (let st1 = stopInitPing st;
             st2 = st1\<lparr>initPingCount := 0\<rparr>;
             st3 = postRaw Init st2
         in st3\<lparr>initPingTimer := True\<rparr>))"

text \<open>
  One firing of the interval of \<open>_startInitPing\<close>, every 1000 ms while it is armed; a
  cleared interval does not fire.
\<close>

definition pingTick :: "state \<Rightarrow> state" where
  "pingTick st =
     (if \<not> initPingTimer st then st
      else if reconnectStopped st then stopInitPing st
      else if isReady st then stopInitPing st
      else
        (let st1 = st\<lparr>initPingCount := initPingCount st + 1\<rparr>
         in if initPingCount st1 \<ge> iframeRetryPingThreshold st1
            then
              (if iframeRetryCount st1 < iframeRetryMax st1 then retryIframeLoad st1
               else
                 (let st2 = stopReconnectAttempts ''iframe-unresponsive'' st1
                  in dispatchEvent
                       (ConnectFailedEvent ''iframe-unresponsive''
                          (iframeRetryCount st2) (iframeRetryMax st2)) st2))
            else postRaw Init st1))"

text \<open>\<open>_handleLoad\<close>: the frame's load event.\<close>

definition handleLoad :: "state \<Rightarrow> state" where
  "handleLoad st =
     (let needsReset = isReady st;
          st1 = st\<lparr>isReady := False, apiMethods := [], transportMode := Unknown,
                  legacyTabsCache := [], initPingCount := 0\<rparr>;
          st2 = (if needsReset then st1\<lparr>iframeRetryCount := 0\<rparr> else st1)
      in startInitPing st2)"

text \<open>
  A timer that is armed fires once: the timeout of \<open>_request\<close> removes the entry and
  rejects, the backoff of \<open>_retryIframeLoad\<close> assigns the frame's source again unless
  the element is ready or stopped. A timer that was cleared does not fire.
\<close>

definition fire_timer :: "timer \<Rightarrow> state \<Rightarrow> state" where
  "fire_timer t st =
     (if t \<notin> set (timers st) then st
      else
        (let st1 = st\<lparr>timers := remove1 t (timers st)\<rparr>
         in case t of
              RequestTimeout rid rtype timeoutMs \<Rightarrow>
                settle_promise rid (Rejected (TimedOut rtype timeoutMs)) (pending_delete rid st1)
            | RetryReload src delay \<Rightarrow>
                if isReady st1 \<or> reconnectStopped st1 then st1 else st1\<lparr>iframeSrc := src\<rparr>))"

text \<open>
  \<open>disconnectedCallback\<close>: detached from its document the frame has no window any
  more.
\<close>

definition disconnectedCallback :: "state \<Rightarrow> state" where
  "disconnectedCallback st =
     rejectPending (Cancelled ''browserbox-webview disconnected'')
       (stopInitPing (st\<lparr>contentWindow := False\<rparr>))"

section \<open>Inbound messages\<close>

text \<open>\<open>payload.data || {}\<close>\<close>

definition or_empty :: "jsdata \<Rightarrow> jsdata" where
  "or_empty d = (case d of DPrim v \<Rightarrow> if truthy v then d else DObject Map.empty | _ \<Rightarrow> d)"

text \<open>\<open>_handleMessage\<close>\<close>

definition handleMessage :: "inbound \<Rightarrow> state \<Rightarrow> state" where
  "handleMessage p st =
     (if \<not> fromFrame p then st
      else if \<not> validateIncomingOrigin (origin p) st then st
      else
        (case ptype p of
           None \<Rightarrow> st
         | Some ty \<Rightarrow>
             (case settle p st of
                Some st' \<Rightarrow> st'
              | None \<Rightarrow>
                  if ty = ''tab-api-ready'' then dispatchEvent (ReadyEvent ty) (setReady st)
                  else if ty = ''bbx-api-ready'' then
                    (let st1 = (case pmethods p of
                                  Some ms \<Rightarrow> st\<lparr>apiMethods := ms, transportMode := Modern\<rparr>
                                | None \<Rightarrow> st)
                     in dispatchEvent (ApiReadyEvent (or_empty (pdata p))) (setReady st1))
                  else
                    (let st1 =
                           (if ty = ''tab-updated''
                            then st\<lparr>legacyTabsCache :=
                                      updateLegacyTabCache (pdata p) (legacyTabsCache st)\<rparr>
                            else if ty = ''tab-created''
                            then st\<lparr>legacyTabsCache :=
                                      addLegacyTabCache (pdata p) (legacyTabsCache st)\<rparr>
                            else if ty = ''tab-closed''
                            then st\<lparr>legacyTabsCache :=
                                      removeLegacyTabCache (pdata p) (legacyTabsCache st)\<rparr>
                            else st)
                     in dispatchEvent (PassthroughEvent ty (or_empty (pdata p))) st1))))"

text \<open>
  What can happen to the element between two of its own steps: a request is sent, a
  message arrives, an armed timer or the probe interval fires, the frame loads, the
  pending requests are cancelled in bulk (on a source change or a refresh), the
  reconnection is stopped, the element is attached or detached, the clock moves.
\<close>

datatype action =
    Send string reqdata "int option"
  | Receive inbound
  | Fire timer
  | PingTick
  | Load
  | CancelAll string
  | StopReconnect string
  | Attach "string option"
  | Detach
  | SetClock nat

fun step :: "state \<Rightarrow> action \<Rightarrow> state" where
  "step st (Send rtype rdata timeoutOpt) = snd (request rtype rdata timeoutOpt st)"
| "step st (Receive p) = handleMessage p st"
| "step st (Fire t) = fire_timer t st"
| "step st PingTick = pingTick st"
| "step st Load = handleLoad st"
| "step st (CancelAll why) = rejectPending (Cancelled why) st"
| "step st (StopReconnect why) = stopReconnectAttempts why st"
| "step st (Attach loginLink) = connectedCallback loginLink st"
| "step st Detach = disconnectedCallback st"
| "step st (SetClock now) = st\<lparr>clock := now\<rparr>"

definition run :: "state \<Rightarrow> action list \<Rightarrow> state" where
  "run st acts = foldl step st acts"

text \<open>The settlements of a request's promise, in order.\<close>

definition settlements :: "reqid \<Rightarrow> state \<Rightarrow> settlement list" where
  "settlements rid st = map snd (filter (\<lambda>e. fst e = rid) (settled st))"

text \<open>
  The ledger's invariant: the ids of the entries are distinct, an entry's timer is the
  timeout of its own request, the armed request timeouts are exactly the timers of the
  entries, no promise was settled twice, none that was settled is still in the ledger,
  every id was made from a sequence number already used, and every request that was
  posted is in the ledger or has been settled.
\<close>

fun is_request_timer :: "timer \<Rightarrow> bool" where
  "is_request_timer (RequestTimeout rid rtype timeoutMs) = True"
| "is_request_timer (RetryReload src delay) = False"

definition pending_ids :: "state \<Rightarrow> reqid set" where
  "pending_ids st = fst ` set (pending st)"

definition settled_ids :: "state \<Rightarrow> reqid set" where
  "settled_ids st = fst ` set (settled st)"

definition ledger_ok :: "state \<Rightarrow> bool" where
  "ledger_ok st =
     (distinct (map fst (pending st)) \<and>
      (\<forall>e \<in> set (pending st). \<exists>rtype timeoutMs. snd e = RequestTimeout (fst e) rtype timeoutMs) \<and>
      filter is_request_timer (timers st) = map snd (pending st) \<and>
      distinct (map fst (settled st)) \<and>
      pending_ids st \<inter> settled_ids st = {} \<and>
      (\<forall>rid \<in> pending_ids st \<union> settled_ids st. snd rid \<le> requestSeq st) \<and>
      (\<forall>m \<in> set (outbox st). \<forall>rtype rid rdata.
          m = Request rtype rid rdata \<longrightarrow> rid \<in> pending_ids st \<union> settled_ids st))"

text \<open>What the ledger consists of: the entries, the armed timers and the settlements.\<close>

definition ledger :: "state \<Rightarrow> (reqid \<times> timer) list \<times> timer list \<times> (reqid \<times> settlement) list" where
  "ledger st = (pending st, timers st, settled st)"

text \<open>
  What settles a promise of the ledger: a response (resolved with its data, or rejected
  with the peer's error), the request's timeout, or a bulk cancellation.
\<close>

fun settled_by_ledger :: "settlement \<Rightarrow> bool" where
  "settled_by_ledger (Resolved d) = True"
| "settled_by_ledger (Rejected (PeerError e)) = True"
| "settled_by_ledger (Rejected (TimedOut rtype timeoutMs)) = True"
| "settled_by_ledger (Rejected (Cancelled why)) = True"
| "settled_by_ledger (Rejected IframeNotReady) = False"

definition cause_ok :: "state \<Rightarrow> bool" where
  "cause_ok st = list_all (\<lambda>e. settled_by_ledger (snd e)) (settled st)"

section \<open>Awaited requests\<close>

text \<open>
  The net effect on the ledger of a settlement of the request \<open>rid\<close>, by a response or
  by its timeout: the timer is gone, the entry is deleted, the promise is settled.
\<close>

definition settle_request :: "reqid \<Rightarrow> settlement \<Rightarrow> state \<Rightarrow> state" where
  "settle_request rid s st =
     (case map_of (pending st) rid of
        None \<Rightarrow> st
      | Some t \<Rightarrow> settle_promise rid s (pending_delete rid (clearTimeout t st)))"

section \<open>Transport resolution\<close>

text \<open>
  \<open>_resolveTransport\<close> up to its \<open>await\<close>: the mode when it is known, else the probe
  request, with \<open>timeoutMs: Math.min(this.requestTimeoutMs, 5000)\<close>.
\<close>

definition resolveTransport_start :: "state \<Rightarrow> (transport + (reason + reqid)) \<times> state" where
  "resolveTransport_start st =
     (if transportMode st \<noteq> Unknown then (Inl (transportMode st), st)
      else
        (case request ''bbx-api-call'' (ApiCall ''getTabCount'' [])
                (Some (min (requestTimeoutMs st) 5000)) st of
           (r, st1) \<Rightarrow> (Inr r, st1)))"

text \<open>
  \<open>_resolveTransport\<close> from its \<open>await\<close> on, in the state the element is in when the
  probe's promise has been settled: the \<open>try\<close> sets modern, the \<open>catch\<close> legacy, and
  the mode is returned.
\<close>

definition resolveTransport_finish :: "settlement \<Rightarrow> state \<Rightarrow> transport \<times> state" where
  "resolveTransport_finish s st =
     (let st1 = (case s of
                   Resolved d \<Rightarrow> st\<lparr>transportMode := Modern\<rparr>
                 | Rejected err \<Rightarrow> st\<lparr>transportMode := Legacy\<rparr>)
      in (transportMode st1, st1))"

text \<open>The whole of it for one caller, the probe settled by \<open>s\<close>.\<close>

definition resolveTransport :: "settlement \<Rightarrow> state \<Rightarrow> transport \<times> state" where
  "resolveTransport s st =
     (case resolveTransport_start st of
        (Inl mode, st1) \<Rightarrow> (mode, st1)
      | (Inr (Inl err), st1) \<Rightarrow> resolveTransport_finish (Rejected err) st1
      | (Inr (Inr rid), st1) \<Rightarrow> resolveTransport_finish s (settle_request rid s st1))"

section \<open>The legacy handlers\<close>

text \<open>\<open>d?.k\<close> for a payload: only an object has the properties the handlers read.\<close>

definition data_get :: "jsdata \<Rightarrow> string \<Rightarrow> jsval" where
  "data_get d k = (case d of DObject obj \<Rightarrow> js_get obj k | _ \<Rightarrow> JUndefined)"

text \<open>\<open>args[i]\<close>\<close>

definition arg :: "jsdata list \<Rightarrow> nat \<Rightarrow> jsdata" where
  "arg args i = (if i < length args then args ! i else DPrim JUndefined)"

text \<open>\<open>tabs[i]?.\<close>: an index out of range reads as a tab with no property.\<close>

definition tab_at :: "jsobj list \<Rightarrow> int \<Rightarrow> jsobj" where
  "tab_at tabs i = (if 0 \<le> i \<and> i < int (length tabs) then tabs ! nat i else Map.empty)"

text \<open>\<open>tab?.id || tab?.targetId\<close>\<close>

definition tab_ident :: "jsobj \<Rightarrow> jsval" where
  "tab_ident tab = js_or (js_get tab ''id'') (js_get tab ''targetId'')"

text \<open>
  \<open>fail\<close>: the message of the error thrown; \<open>originalError\<close> is given by its message,
  \<open>None\<close> when it is null or has none.
\<close>

definition fail_message :: "string \<Rightarrow> string option \<Rightarrow> string" where
  "fail_message message originalError =
     message @ (case originalError of
                  None \<Rightarrow> []
                | Some m \<Rightarrow> if m \<noteq> [] then '' ('' @ m @ '')'' else [])"

text \<open>\<open>tabs.map((tab, index) => ({ index, ...tab }))\<close>\<close>

definition stamp :: "jsobj list \<Rightarrow> jsobj list" where
  "stamp tabs = map (\<lambda>(index, tab). [''index'' \<mapsto> JInt (int index)] ++ tab) (enumerate 0 tabs)"

text \<open>
  An async handler is given by its segments between one \<open>await\<close> and the next. A
  segment that ends at the \<open>await\<close> of a request returns what \<open>_request\<close> gave: the id
  of the request posted or, without a window, the error of the promise rejected at once.
  A segment that resumes takes what the awaited promise was settled with and the state
  the element is in at that moment, whatever has happened to it since the call.
\<close>

text \<open>The handler \<open>getTabs\<close> up to its \<open>await\<close>.\<close>

definition getTabs_start :: "state \<Rightarrow> (reason + reqid) \<times> state" where
  "getTabs_start st = request ''getTabs'' NoData None st"

text \<open>
  The handler \<open>getTabs\<close> from its \<open>await\<close> on: the \<open>catch\<close> reads the tab cache of
  the state it resumes in.
\<close>

definition getTabs_finish :: "settlement \<Rightarrow> state \<Rightarrow> jsobj list \<times> state" where
  "getTabs_finish s st =
     (let tabs = (case s of
                    Resolved d \<Rightarrow> d
                  | Rejected err \<Rightarrow> DArray (legacyTabsCache st))
      in case tabs of
           DArray ts \<Rightarrow>
             (let normalizedTabs = stamp ts
              in (normalizedTabs, st\<lparr>legacyTabsCache := normalizedTabs\<rparr>))
         | _ \<Rightarrow> (legacyTabsCache st, st))"

text \<open>
  The loop of \<open>closeAllTabs\<close>:
  \<open>for (let i = tabs.length - 1; i >= keep; i -= 1)\<close>.
\<close>

function closeAllTabs_loop :: "jsobj list \<Rightarrow> int \<Rightarrow> int \<Rightarrow> state \<Rightarrow> state" where
  "closeAllTabs_loop tabs keep i st =
     (if i \<ge> keep
      then
        (let tabId = tab_ident (tab_at tabs i)
         in if \<not> truthy tabId then closeAllTabs_loop tabs keep (i - 1) st
            else closeAllTabs_loop tabs keep (i - 1) (postRaw (TabCommand ''closeTab'' tabId) st))
      else st)"
  by pat_completeness auto
termination
  by (relation "measure (\<lambda>(tabs, keep, i, st). nat (i - keep + 1))") auto

declare closeAllTabs_loop.simps [simp del]

text \<open>
  The handler \<open>closeAllTabs\<close> up to the \<open>await\<close> of the query that its call of
  \<open>getTabs\<close> posts.
\<close>

definition closeAllTabs_start :: "jsdata list \<Rightarrow> state \<Rightarrow> (reason + reqid) \<times> state" where
  "closeAllTabs_start args st = getTabs_start st"

text \<open>
  The handler \<open>closeAllTabs\<close> from \<open>await self._legacyHandlers.getTabs.call(self, [])\<close>
  on: \<open>tabs\<close> is the list that \<open>getTabs\<close> returned (always an array) and \<open>st\<close> the
  state the handler resumes in. It returns a number.
\<close>

definition closeAllTabs_resume :: "jsdata list \<Rightarrow> jsobj list \<Rightarrow> state \<Rightarrow> int \<times> state" where
  "closeAllTabs_resume args tabs st =
     (let keep = (case data_get (arg args 0) ''keep'' of
                    JInt k \<Rightarrow> max 0 k
                  | _ \<Rightarrow> 0)
      in if int (length tabs) \<le> keep then (int (length tabs), st)
         else (max keep 0, closeAllTabs_loop tabs keep (int (length tabs) - 1) st))"

text \<open>
  \<open>resolveTabId\<close> up to its first \<open>await\<close>: a string that is not blank is returned
  trimmed (\<open>Inl\<close>), for every other argument the query of \<open>getTabs\<close> is posted. An
  argument that is undefined takes the default null.
\<close>

definition resolveTabId_start :: "jsdata \<Rightarrow> state \<Rightarrow> (jsval + (reason + reqid)) \<times> state" where
  "resolveTabId_start indexArg st =
     (case (case indexArg of
              DPrim (JStr str) \<Rightarrow> if length (js_trim str) > 0 then Some (js_trim str) else None
            | _ \<Rightarrow> None) of
        Some trimmed \<Rightarrow> (Inl (JStr trimmed), st)
      | None \<Rightarrow> (case getTabs_start st of (r, st1) \<Rightarrow> (Inr r, st1)))"

text \<open>
  \<open>resolveTabId\<close> from \<open>await self._legacyHandlers.getTabs.call(self, [])\<close> on, with
  the list that \<open>getTabs\<close> returned: the identifier of the tab selected (\<open>Inl\<close>) or,
  the list being empty, the request for the active tab.
\<close>

definition resolveTabId_tabs ::
  "jsdata \<Rightarrow> jsobj list \<Rightarrow> state \<Rightarrow> (jsval + (reason + reqid)) \<times> state" where
  "resolveTabId_tabs indexArg tabs st =
     (if length tabs > 0
      then
        (let requested = (case indexArg of DPrim (JInt i) \<Rightarrow> i | _ \<Rightarrow> 0);
             normalized = (if requested < 0 then int (length tabs) + requested else requested);
             safeIndex = max 0 (min (int (length tabs) - 1) normalized)
         in (Inl (js_or (tab_ident (tab_at tabs safeIndex)) JNull), st))
      else
        (case request ''getActiveTab'' NoData None st of (r, st1) \<Rightarrow> (Inr r, st1)))"

text \<open>
  \<open>resolveTabId\<close> once the request for the active tab is settled;
  \<open>.catch(() => null)\<close> turns a rejection into null.
\<close>

definition resolveTabId_active :: "settlement \<Rightarrow> jsval" where
  "resolveTabId_active s =
     (let activeTab = (case s of
                         Resolved d \<Rightarrow> d
                       | Rejected err \<Rightarrow> DPrim JNull)
      in js_or (js_or (data_get activeTab ''id'') (data_get activeTab ''targetId'')) JNull)"

text \<open>
  The handlers that ask \<open>resolveTabId\<close> for their tab, and what each gives it:
  \<open>args[0]\<close> or null.
\<close>

datatype legacy_op =
    CloseTab | SwitchToTab | NavigateTo | NavigateTab | SubmitOmnibox
  | Reload | GoBack | GoForward | Stop | Evaluate

fun legacy_target :: "legacy_op \<Rightarrow> jsdata list \<Rightarrow> jsdata" where
  "legacy_target CloseTab args = arg args 0"
| "legacy_target SwitchToTab args = arg args 0"
| "legacy_target NavigateTab args = arg args 0"
| "legacy_target NavigateTo args = DPrim JNull"
| "legacy_target SubmitOmnibox args = DPrim JNull"
| "legacy_target Reload args = DPrim JNull"
| "legacy_target GoBack args = DPrim JNull"
| "legacy_target GoForward args = DPrim JNull"
| "legacy_target Stop args = DPrim JNull"
| "legacy_target Evaluate args = DPrim JNull"

text \<open>\<open>typeof args[i] === 'string' ? args[i] : ''\<close>\<close>

definition str_arg :: "jsdata list \<Rightarrow> nat \<Rightarrow> string" where
  "str_arg args i = (case arg args i of DPrim (JStr str) \<Rightarrow> str | _ \<Rightarrow> [])"

text \<open>\<open>String.prototype.includes\<close>\<close>

fun js_includes :: "string \<Rightarrow> string \<Rightarrow> bool" where
  "js_includes [] sub = (sub = [])"
| "js_includes (c # cs) sub = (take (length sub) (c # cs) = sub \<or> js_includes cs sub)"

text \<open>The handler \<open>navigateTo\<close> from \<open>await resolveTabId(null)\<close> on.\<close>

definition navigateTo_resume ::
  "jsdata list \<Rightarrow> string option \<Rightarrow> jsval \<Rightarrow> state \<Rightarrow> (string + bool) \<times> state" where
  "navigateTo_resume args originalError tabId st =
     (let url = str_arg args 0
      in if \<not> truthy tabId
         then (Inl (fail_message ''Legacy navigateTo failed: no active tab'' originalError), st)
         else (Inr True, postRaw (TabUrlCommand ''loadURL'' tabId url) st))"

text \<open>
  Each of these handlers from \<open>await resolveTabId(...)\<close> on, \<open>tabId\<close> being what the
  resolver returned and \<open>st\<close> the state the handler resumes in: \<open>Inl\<close> is the message
  of the error that \<open>fail\<close> throws, \<open>Inr True\<close> the value returned. \<open>submitOmnibox\<close>
  hands its query to \<open>navigateTo\<close>.
\<close>

fun legacy_resume ::
  "legacy_op \<Rightarrow> jsdata list \<Rightarrow> string option \<Rightarrow> jsval \<Rightarrow> state \<Rightarrow> (string + bool) \<times> state" where
  "legacy_resume CloseTab args originalError tabId st =
     (if \<not> truthy tabId
      then (Inl (fail_message ''Legacy closeTab failed: no target tab'' originalError), st)
      else (Inr True, postRaw (TabCommand ''closeTab'' tabId) st))"
| "legacy_resume SwitchToTab args originalError tabId st =
     (if \<not> truthy tabId
      then (Inl (fail_message ''Legacy switchToTab failed: no target tab'' originalError), st)
      else (Inr True, postRaw (TabCommand ''setActiveTab'' tabId) st))"
| "legacy_resume NavigateTo args originalError tabId st =
     navigateTo_resume args originalError tabId st"
| "legacy_resume NavigateTab args originalError tabId st =
     (let url = str_arg args 1
      in if \<not> truthy tabId
         then (Inl (fail_message ''Legacy navigateTab failed: no target tab'' originalError), st)
         else (Inr True,
               postRaw (TabUrlCommand ''loadURL'' tabId url)
                 (postRaw (TabCommand ''setActiveTab'' tabId) st)))"
| "legacy_resume SubmitOmnibox args originalError tabId st =
     (let query = str_arg args 0
      in navigateTo_resume [DPrim (JStr query)] originalError tabId st)"
| "legacy_resume Reload args originalError tabId st =
     (if \<not> truthy tabId
      then (Inl (fail_message ''Legacy reload failed: no active tab'' originalError), st)
      else (Inr True, postRaw (TabCommand ''reload'' tabId) st))"
| "legacy_resume GoBack args originalError tabId st =
     (if \<not> truthy tabId
      then (Inl (fail_message ''Legacy goBack failed: no active tab'' originalError), st)
      else (Inr True, postRaw (TabCommand ''goBack'' tabId) st))"
| "legacy_resume GoForward args originalError tabId st =
     (if \<not> truthy tabId
      then (Inl (fail_message ''Legacy goForward failed: no active tab'' originalError), st)
      else (Inr True, postRaw (TabCommand ''goForward'' tabId) st))"
| "legacy_resume Stop args originalError tabId st =
     (if \<not> truthy tabId
      then (Inl (fail_message ''Legacy stop failed: no active tab'' originalError), st)
      else (Inr True, postRaw (TabCommand ''stop'' tabId) st))"
| "legacy_resume Evaluate args originalError tabId st =
     (let expression = str_arg args 0
      in if \<not> truthy tabId
         then (Inl (fail_message ''Legacy evaluate failed: no active tab'' originalError), st)
         else if js_includes expression ''history.back''
         then (Inr True, postRaw (TabCommand ''goBack'' tabId) st)
         else if js_includes expression ''history.forward''
         then (Inr True, postRaw (TabCommand ''goForward'' tabId) st)
         else if js_includes expression ''window.stop''
         then (Inr True, postRaw (TabCommand ''stop'' tabId) st)
         else (Inl (fail_message
                 ''Legacy evaluate only supports history.back, history.forward, and window.stop''
                 originalError), st))"

section \<open>The unified call\<close>

text \<open>
  Where a call of \<open>callApi\<close> stands: rejected with an error, suspended at
  \<open>await this._ensureReadyForApi()\<close> (with the method as given), suspended in
  \<open>_resolveTransport\<close> at the probe (with the normalized method and what \<open>_request\<close>
  gave), or returning \<open>this._legacyCall(normalizedMethod, args)\<close> or the promise of the
  modern request.
\<close>

datatype call_stage =
    Failed string
  | AwaitReady string "jsdata list"
  | AwaitProbe string "jsdata list" "reason + reqid"
  | LegacyCall string "jsdata list"
  | ModernCall "reason + reqid"

text \<open>\<open>callApi\<close> up to its first \<open>await\<close>.\<close>

definition callApi_start :: "jsdata \<Rightarrow> jsdata list \<Rightarrow> state \<Rightarrow> call_stage \<times> state" where
  "callApi_start method args st =
     (case method of
        DPrim (JStr m) \<Rightarrow>
          if length (js_trim m) = 0
          then (Failed ''callApi(method, ...args) requires a non-empty method string.'', st)
          else (AwaitReady m args, st)
      | _ \<Rightarrow> (Failed ''callApi(method, ...args) requires a non-empty method string.'', st))"

text \<open>
  The \<open>catch\<close> of \<open>_ensureReadyForApi\<close>, when the wait for readiness times out after
  \<open>Math.min(this.requestTimeoutMs, 8000)\<close> ms.
\<close>

definition ensureReadyTimeout :: "state \<Rightarrow> state" where
  "ensureReadyTimeout st =
     dispatchEvent (ReadyTimeoutEvent (min (requestTimeoutMs st) 8000)) (setReady st)"

text \<open>The last step of \<open>callApi\<close>.\<close>

definition callApi_dispatch :: "string \<Rightarrow> jsdata list \<Rightarrow> state \<Rightarrow> call_stage \<times> state" where
  "callApi_dispatch normalizedMethod args st =
     (if transportMode st = Legacy then (LegacyCall normalizedMethod args, st)
      else
        (case request ''bbx-api-call'' (ApiCall normalizedMethod args)
                (Some (requestTimeoutMs st)) st of
           (r, st1) \<Rightarrow> (ModernCall r, st1)))"

text \<open>\<open>callApi\<close> from the first \<open>await\<close> to the next.\<close>

definition callApi_ready :: "string \<Rightarrow> jsdata list \<Rightarrow> state \<Rightarrow> call_stage \<times> state" where
  "callApi_ready method args st =
     (let normalizedMethod = js_trim method
      in if transportMode st = Unknown
         then
           (case resolveTransport_start st of
              (Inl mode, st1) \<Rightarrow> callApi_dispatch normalizedMethod args st1
            | (Inr r, st1) \<Rightarrow> (AwaitProbe normalizedMethod args r, st1))
         else callApi_dispatch normalizedMethod args st)"

text \<open>\<open>callApi\<close> once the probe's promise has been settled.\<close>

definition callApi_probed ::
  "string \<Rightarrow> jsdata list \<Rightarrow> settlement \<Rightarrow> state \<Rightarrow> call_stage \<times> state" where
  "callApi_probed normalizedMethod args s st =
     callApi_dispatch normalizedMethod args (snd (resolveTransport_finish s st))"

text \<open>
  The whole of \<open>callApi\<close> for one caller when nothing else happens in between: an element
  that is not ready becomes so by the timeout of \<open>_ensureReadyForApi\<close>, and \<open>probe\<close>
  settles the probe if one is posted.
\<close>

definition callApi :: "jsdata \<Rightarrow> jsdata list \<Rightarrow> settlement \<Rightarrow> state \<Rightarrow> call_stage \<times> state" where
  "callApi method args probe st =
     (case callApi_start method args st of
        (AwaitReady m a, st1) \<Rightarrow>
          (case callApi_ready m a (if isReady st1 then st1 else ensureReadyTimeout st1) of
             (AwaitProbe nm a' (Inl err), st2) \<Rightarrow> callApi_probed nm a' (Rejected err) st2
           | (AwaitProbe nm a' (Inr rid), st2) \<Rightarrow>
               callApi_probed nm a' probe (settle_request rid probe st2)
           | r \<Rightarrow> r)
      | r \<Rightarrow> r)"

text \<open>The probe of the transport resolution, among the messages posted.\<close>

fun is_probe :: "message \<Rightarrow> bool" where
  "is_probe (Request rtype rid rdata) =
     (rtype = ''bbx-api-call'' \<and> rdata = ApiCall ''getTabCount'' [])"
| "is_probe m = False"

fun is_close :: "message \<Rightarrow> bool" where
  "is_close (TabCommand mtype tabId) = (mtype = ''closeTab'')"
| "is_close m = False"

section \<open>The unresponsive peer\<close>








section \<open>Facts about the tab cache\<close>

lemma findIndex_Some: "findIndex p xs = Some i \<Longrightarrow> i < length xs \<and> p (xs ! i)"
proof (induction xs arbitrary: i)
  case Nil
  then show ?case by simp
next
  case (Cons x xs)
  then show ?case by (cases "p x") auto
qed

lemma indexed_nth: "indexed cache = (\<forall>i < length cache. js_get (cache ! i) ''index'' = JInt (int i))"
  by (auto simp: indexed_def list_all_iff in_set_enumerate_eq)

lemma length_reindex: "length (reindex tabs) = length tabs"
  by (simp add: reindex_def)

lemma reindex_nth:
  "i < length tabs \<Longrightarrow> reindex tabs ! i = (tabs ! i)(''index'' \<mapsto> JInt (int i))"
  by (simp add: reindex_def nth_enumerate_eq)

lemma indexed_reindex: "indexed (reindex tabs)"
  by (simp add: indexed_nth length_reindex reindex_nth js_get_def)

lemma indexed_update:
  assumes "indexed cache"
  shows "indexed (updateLegacyTabCache detail cache)"
proof (cases "normalizeTabId detail")
  case None
  with assms show ?thesis by (simp add: updateLegacyTabCache_def)
next
  case (Some tabId)
  show ?thesis
  proof (cases "findIndex (\<lambda>tab. normalizeTabId (DObject tab) = Some tabId) cache")
    case None
    with Some assms show ?thesis by (simp add: updateLegacyTabCache_def)
  next
    case found: (Some index)
    then have lt: "index < length cache" by (rule findIndex_Some [THEN conjunct1])
    with assms have old: "js_get (cache ! index) ''index'' = JInt (int index)"
      by (simp add: indexed_nth)
    show ?thesis
    proof (cases detail)
      case (DObject d)
      with Some found lt old assms show ?thesis
        by (auto simp: updateLegacyTabCache_def indexed_nth nth_list_update js_get_def
            js_coalesce_def Let_def)
    next
      case (DPrim v)
      with Some show ?thesis by simp
    next
      case (DArray ts)
      with Some show ?thesis by simp
    qed
  qed
qed

lemma indexed_add:
  assumes "indexed cache"
  shows "indexed (addLegacyTabCache detail cache)"
  using assms indexed_update [OF assms, of detail]
  by (auto simp: addLegacyTabCache_def indexed_reindex Let_def
      split: option.splits jsdata.splits)

lemma indexed_remove: "indexed cache \<Longrightarrow> indexed (removeLegacyTabCache detail cache)"
  by (auto simp: removeLegacyTabCache_def indexed_reindex split: option.splits)

lemma indexed_apply: "indexed cache \<Longrightarrow> indexed (apply_cache_op cache op)"
  by (cases op) (simp_all add: indexed_add indexed_update indexed_remove)

lemma indexed_foldl: "indexed cache \<Longrightarrow> indexed (foldl apply_cache_op cache ops)"
  by (induction ops arbitrary: cache) (simp_all add: indexed_apply)

section \<open>Facts about the ledger\<close>

lemma rejectPending_fold:
  "foldl (\<lambda>s e. settle_promise (fst e) (Rejected err) (clearTimeout (snd e) s)) st es =
     st\<lparr>timers := foldl (\<lambda>ts e. remove1 (snd e) ts) (timers st) es,
        settled := settled st @ map (\<lambda>e. (fst e, Rejected err)) es\<rparr>"
  by (induction es arbitrary: st) (simp_all add: settle_promise_def clearTimeout_def)

lemma rejectPending_eq:
  "rejectPending err st =
     st\<lparr>timers := foldl (\<lambda>ts e. remove1 (snd e) ts) (timers st) (pending st),
        settled := settled st @ map (\<lambda>e. (fst e, Rejected err)) (pending st),
        pending := []\<rparr>"
  by (simp add: rejectPending_def rejectPending_fold)

lemma filter_remove1_other:
  "\<not> is_request_timer t \<Longrightarrow> filter is_request_timer (remove1 t ts) = filter is_request_timer ts"
  by (induction ts) auto

lemma filter_remove1_same:
  "is_request_timer t \<Longrightarrow>
   filter is_request_timer (remove1 t ts) = remove1 t (filter is_request_timer ts)"
  by (induction ts) auto

lemma remove_all_request_timers:
  "filter is_request_timer ts = map snd es \<Longrightarrow>
   filter is_request_timer (foldl (\<lambda>ts e. remove1 (snd e) ts) ts es) = []"
proof (induction es arbitrary: ts)
  case Nil
  then show ?case by simp
next
  case (Cons e es)
  from Cons.prems have "snd e \<in> set (filter is_request_timer ts)" by simp
  then have req: "is_request_timer (snd e)" by simp
  have "filter is_request_timer (remove1 (snd e) ts) = map snd es"
    using Cons.prems by (simp add: filter_remove1_same [OF req])
  then show ?case using Cons.IH by simp
qed

lemma remove1_entry_timer:
  assumes "distinct (map fst ps)"
    and "\<forall>e \<in> set ps. \<exists>rtype timeoutMs. snd e = RequestTimeout (fst e) rtype timeoutMs"
    and "map_of ps rid = Some t"
  shows "remove1 t (map snd ps) = map snd (filter (\<lambda>e. fst e \<noteq> rid) ps)"
  using assms
proof (induction ps)
  case Nil
  then show ?case by simp
next
  case (Cons e ps)
  show ?case
  proof (cases "fst e = rid")
    case True
    with Cons.prems have t: "snd e = t" by (cases e) simp
    from True Cons.prems have "rid \<notin> fst ` set ps" by auto
    then have "filter (\<lambda>e. fst e \<noteq> rid) ps = ps"
      by (intro filter_True) force
    with True t show ?thesis by simp
  next
    case False
    with Cons.prems have "map_of ps rid = Some t" by (cases e) (simp split: if_splits)
    moreover from Cons.prems False have "snd e \<noteq> t"
    proof -
      obtain rtype timeoutMs where e: "snd e = RequestTimeout (fst e) rtype timeoutMs"
        using Cons.prems(2) by auto
      have "(rid, t) \<in> set ps" using \<open>map_of ps rid = Some t\<close> by (rule map_of_SomeD)
      then obtain rtype' timeoutMs' where "t = RequestTimeout rid rtype' timeoutMs'"
        using Cons.prems(2) by fastforce
      with e False show ?thesis by simp
    qed
    ultimately show ?thesis using Cons False by simp
  qed
qed

lemma ledger_ok_constructed: "ledger_ok constructed"
  by (simp add: ledger_ok_def constructed_def pending_ids_def settled_ids_def)

lemma ledger_okI:
  assumes "distinct (map fst (pending st))"
    and "\<forall>e \<in> set (pending st). \<exists>rtype timeoutMs. snd e = RequestTimeout (fst e) rtype timeoutMs"
    and "filter is_request_timer (timers st) = map snd (pending st)"
    and "distinct (map fst (settled st))"
    and "pending_ids st \<inter> settled_ids st = {}"
    and "\<forall>rid \<in> pending_ids st \<union> settled_ids st. snd rid \<le> requestSeq st"
    and "\<forall>m \<in> set (outbox st). \<forall>rtype rid rdata.
          m = Request rtype rid rdata \<longrightarrow> rid \<in> pending_ids st \<union> settled_ids st"
  shows "ledger_ok st"
  using assms unfolding ledger_ok_def by blast

lemma ledger_okD:
  assumes "ledger_ok st"
  shows "distinct (map fst (pending st))"
    and "\<forall>e \<in> set (pending st). \<exists>rtype timeoutMs. snd e = RequestTimeout (fst e) rtype timeoutMs"
    and "filter is_request_timer (timers st) = map snd (pending st)"
    and "distinct (map fst (settled st))"
    and "pending_ids st \<inter> settled_ids st = {}"
    and "\<forall>rid \<in> pending_ids st \<union> settled_ids st. snd rid \<le> requestSeq st"
    and "\<forall>m \<in> set (outbox st). \<forall>rtype rid rdata.
          m = Request rtype rid rdata \<longrightarrow> rid \<in> pending_ids st \<union> settled_ids st"
  using assms unfolding ledger_ok_def by blast+

lemma request_unavailable:
  "\<not> contentWindow st \<Longrightarrow> request rtype rdata timeoutOpt st = (Inl IframeNotReady, st)"
  by (simp add: request_def)

lemma request_available:
  assumes "contentWindow st"
  shows "request rtype rdata timeoutOpt st =
       (Inr (clock st, requestSeq st + 1),
        st\<lparr>requestSeq := requestSeq st + 1,
           timers := timers st @
             [RequestTimeout (clock st, requestSeq st + 1) rtype
                (case timeoutOpt of Some t \<Rightarrow> max 100 t | None \<Rightarrow> requestTimeoutMs st)],
           pending := pending st @
             [((clock st, requestSeq st + 1),
               RequestTimeout (clock st, requestSeq st + 1) rtype
                 (case timeoutOpt of Some t \<Rightarrow> max 100 t | None \<Rightarrow> requestTimeoutMs st))],
           outbox := outbox st @ [Request rtype (clock st, requestSeq st + 1) rdata]\<rparr>)"
  using assms by (simp add: request_def Let_def)

lemma ledger_ok_request:
  assumes ok: "ledger_ok st"
  shows "ledger_ok (snd (request rtype rdata timeoutOpt st))"
proof (cases "contentWindow st")
  case False
  with ok show ?thesis by (simp add: request_unavailable)
next
  case True
  define rid where "rid = (clock st, requestSeq st + 1)"
  define t where "t = RequestTimeout rid rtype
      (case timeoutOpt of Some t \<Rightarrow> max 100 t | None \<Rightarrow> requestTimeoutMs st)"
  define st' where "st' = snd (request rtype rdata timeoutOpt st)"
  have p': "pending st' = pending st @ [(rid, t)]"
    and t': "timers st' = timers st @ [t]"
    and s': "settled st' = settled st"
    and q': "requestSeq st' = requestSeq st + 1"
    and o': "outbox st' = outbox st @ [Request rtype rid rdata]"
    by (simp_all add: st'_def request_available [OF True] rid_def t_def)
  note inv = ledger_okD [OF ok]
  have fresh: "rid \<notin> pending_ids st \<union> settled_ids st"
  proof
    assume "rid \<in> pending_ids st \<union> settled_ids st"
    with inv(6) have "snd rid \<le> requestSeq st" by blast
    then show False by (simp add: rid_def)
  qed
  have pid: "pending_ids st' = insert rid (pending_ids st)"
    by (auto simp: pending_ids_def p')
  have sid: "settled_ids st' = settled_ids st"
    by (simp add: settled_ids_def s')
  have "ledger_ok st'"
  proof (rule ledger_okI)
    show "distinct (map fst (pending st'))"
      using inv(1) fresh by (simp add: p' pending_ids_def)
    show "\<forall>e \<in> set (pending st'). \<exists>rtype timeoutMs. snd e = RequestTimeout (fst e) rtype timeoutMs"
      using inv(2) by (simp add: p' t_def)
    show "filter is_request_timer (timers st') = map snd (pending st')"
      using inv(3) by (simp add: p' t' t_def)
    show "distinct (map fst (settled st'))"
      using inv(4) by (simp add: s')
    show "pending_ids st' \<inter> settled_ids st' = {}"
      using inv(5) fresh unfolding pid sid by blast
    show "\<forall>rid \<in> pending_ids st' \<union> settled_ids st'. snd rid \<le> requestSeq st'"
    proof
      fix r assume "r \<in> pending_ids st' \<union> settled_ids st'"
      then have "r = rid \<or> r \<in> pending_ids st \<union> settled_ids st"
        unfolding pid sid by blast
      then show "snd r \<le> requestSeq st'"
      proof
        assume "r = rid"
        then show ?thesis by (simp add: q' rid_def)
      next
        assume "r \<in> pending_ids st \<union> settled_ids st"
        with inv(6) have "snd r \<le> requestSeq st" by blast
        then show ?thesis by (simp add: q')
      qed
    qed
    show "\<forall>m \<in> set (outbox st'). \<forall>rtype rid rdata.
          m = Request rtype rid rdata \<longrightarrow> rid \<in> pending_ids st' \<union> settled_ids st'"
      using inv(7) unfolding pid sid o' by auto
  qed
  then show ?thesis by (simp add: st'_def)
qed

lemma ledger_ok_settle_entry:
  assumes ok: "ledger_ok st" and t: "map_of (pending st) rid = Some t"
  shows "ledger_ok (settle_promise rid s (pending_delete rid (clearTimeout t st)))"
proof -
  note inv = ledger_okD [OF ok]
  from t have mem: "(rid, t) \<in> set (pending st)" by (rule map_of_SomeD)
  then have rid_pending: "rid \<in> pending_ids st" by (force simp: pending_ids_def)
  from inv(2) mem have req: "is_request_timer t" by fastforce
  have arm': "filter is_request_timer (remove1 t (timers st)) =
      map snd (filter (\<lambda>e. fst e \<noteq> rid) (pending st))"
    using remove1_entry_timer [OF inv(1) inv(2) t] inv(3) by (simp add: filter_remove1_same [OF req])
  from rid_pending inv(5) have fresh: "rid \<notin> settled_ids st" by blast
  define st' where "st' = settle_promise rid s (pending_delete rid (clearTimeout t st))"
  have p': "pending st' = filter (\<lambda>e. fst e \<noteq> rid) (pending st)"
    and t': "timers st' = remove1 t (timers st)"
    and s': "settled st' = settled st @ [(rid, s)]"
    and q': "requestSeq st' = requestSeq st"
    and o': "outbox st' = outbox st"
    by (simp_all add: st'_def settle_promise_def pending_delete_def clearTimeout_def)
  have pid: "pending_ids st' = pending_ids st - {rid}"
    by (auto simp: pending_ids_def p')
  have sid: "settled_ids st' = insert rid (settled_ids st)"
    by (auto simp: settled_ids_def s')
  have "ledger_ok st'"
  proof (rule ledger_okI)
    show "distinct (map fst (pending st'))"
      using inv(1) by (simp add: p' distinct_map_filter)
    show "\<forall>e \<in> set (pending st'). \<exists>rtype timeoutMs. snd e = RequestTimeout (fst e) rtype timeoutMs"
      using inv(2) by (simp add: p')
    show "filter is_request_timer (timers st') = map snd (pending st')"
      using arm' by (simp add: p' t')
    show "distinct (map fst (settled st'))"
      using inv(4) fresh by (simp add: s' settled_ids_def)
    show "pending_ids st' \<inter> settled_ids st' = {}"
      using inv(5) unfolding pid sid by blast
    show "\<forall>rid \<in> pending_ids st' \<union> settled_ids st'. snd rid \<le> requestSeq st'"
      using inv(6) rid_pending unfolding pid sid q' by blast
    show "\<forall>m \<in> set (outbox st'). \<forall>rtype rid rdata.
          m = Request rtype rid rdata \<longrightarrow> rid \<in> pending_ids st' \<union> settled_ids st'"
      using inv(7) unfolding pid sid o' by blast
  qed
  then show ?thesis by (simp add: st'_def)
qed

lemma ledger_ok_settle: "ledger_ok st \<Longrightarrow> settle p st = Some st' \<Longrightarrow> ledger_ok st'"
  by (auto simp: settle_def ledger_ok_settle_entry split: option.splits)

lemma ledger_frame:
  assumes "ledger_ok st"
    and "pending st' = pending st"
    and "filter is_request_timer (timers st') = filter is_request_timer (timers st)"
    and "settled st' = settled st"
    and "requestSeq st' = requestSeq st"
    and "outbox st' = outbox st"
  shows "ledger_ok st'"
  using assms by (simp add: ledger_ok_def pending_ids_def settled_ids_def)

lemma ledger_ok_setReady: "ledger_ok st \<Longrightarrow> ledger_ok (setReady st)"
  by (erule ledger_frame) (simp_all add: setReady_def stopInitPing_def)

lemma ledger_ok_dispatchEvent: "ledger_ok st \<Longrightarrow> ledger_ok (dispatchEvent e st)"
  by (erule ledger_frame) (simp_all add: dispatchEvent_def)

lemma ledger_ok_stopInitPing: "ledger_ok st \<Longrightarrow> ledger_ok (stopInitPing st)"
  by (erule ledger_frame) (simp_all add: stopInitPing_def)

lemma ledger_ok_cache: "ledger_ok st \<Longrightarrow> ledger_ok (st\<lparr>legacyTabsCache := c\<rparr>)"
  by (erule ledger_frame) simp_all

lemma ledger_ok_handleMessage:
  assumes ok: "ledger_ok st"
  shows "ledger_ok (handleMessage p st)"
proof (cases "settle p st")
  case (Some st')
  with ok have "ledger_ok st'" by (simp add: ledger_ok_settle)
  with ok Some show ?thesis by (simp add: handleMessage_def split: option.splits)
next
  case None
  have a: "ledger_ok (st\<lparr>apiMethods := ms, transportMode := Modern\<rparr>)" for ms
    by (rule ledger_frame [OF ok]) simp_all
  show ?thesis
    using ok a None
    by (simp add: handleMessage_def ledger_ok_setReady ledger_ok_dispatchEvent
        ledger_ok_cache Let_def split: option.splits)
qed

lemma ledger_ok_rejectPending:
  assumes ok: "ledger_ok st"
  shows "ledger_ok (rejectPending err st)"
proof -
  note inv = ledger_okD [OF ok]
  define st' where "st' = rejectPending err st"
  have p': "pending st' = []"
    and t': "timers st' = foldl (\<lambda>ts e. remove1 (snd e) ts) (timers st) (pending st)"
    and s': "settled st' = settled st @ map (\<lambda>e. (fst e, Rejected err)) (pending st)"
    and q': "requestSeq st' = requestSeq st"
    and o': "outbox st' = outbox st"
    by (simp_all add: st'_def rejectPending_eq)
  have pid: "pending_ids st' = {}"
    by (simp add: pending_ids_def p')
  have sid: "settled_ids st' = settled_ids st \<union> pending_ids st"
    by (auto simp: settled_ids_def pending_ids_def s' image_Un image_image)
  have "ledger_ok st'"
  proof (rule ledger_okI)
    show "distinct (map fst (pending st'))" by (simp add: p')
    show "\<forall>e \<in> set (pending st'). \<exists>rtype timeoutMs. snd e = RequestTimeout (fst e) rtype timeoutMs"
      by (simp add: p')
    show "filter is_request_timer (timers st') = map snd (pending st')"
      using remove_all_request_timers [OF inv(3)] by (simp add: p' t')
    show "distinct (map fst (settled st'))"
      using inv(1) inv(4) inv(5)
      by (auto simp: s' comp_def pending_ids_def settled_ids_def)
    show "pending_ids st' \<inter> settled_ids st' = {}" by (simp add: pid)
    show "\<forall>rid \<in> pending_ids st' \<union> settled_ids st'. snd rid \<le> requestSeq st'"
      using inv(6) unfolding pid sid q' by blast
    show "\<forall>m \<in> set (outbox st'). \<forall>rtype rid rdata.
          m = Request rtype rid rdata \<longrightarrow> rid \<in> pending_ids st' \<union> settled_ids st'"
      using inv(7) unfolding pid sid o' by blast
  qed
  then show ?thesis by (simp add: st'_def)
qed

lemma ledger_ok_stopReconnectAttempts:
  assumes ok: "ledger_ok st"
  shows "ledger_ok (stopReconnectAttempts why st)"
proof -
  have "ledger_ok (stopInitPing (st\<lparr>reconnectStopped := True\<rparr>))"
    by (rule ledger_frame [OF ok]) (simp_all add: stopInitPing_def)
  then show ?thesis by (simp add: stopReconnectAttempts_def ledger_ok_rejectPending)
qed

lemma ledger_ok_postRaw_Init: "ledger_ok st \<Longrightarrow> ledger_ok (postRaw Init st)"
  by (simp add: postRaw_def ledger_ok_def pending_ids_def settled_ids_def)

lemma ledger_ok_retryIframeLoad: "ledger_ok st \<Longrightarrow> ledger_ok (retryIframeLoad st)"
  by (erule ledger_frame)
    (simp_all add: retryIframeLoad_def stopInitPing_def dispatchEvent_def Let_def)

lemma ledger_ok_pingTick:
  assumes ok: "ledger_ok st"
  shows "ledger_ok (pingTick st)"
proof -
  have b: "ledger_ok (st\<lparr>initPingCount := Suc (initPingCount st)\<rparr>)"
    by (rule ledger_frame [OF ok]) simp_all
  show ?thesis
    using ok
    by (simp add: pingTick_def Let_def ledger_ok_retryIframeLoad [OF b]
        ledger_ok_postRaw_Init [OF b] ledger_ok_stopInitPing
        ledger_ok_dispatchEvent [OF ledger_ok_stopReconnectAttempts [OF b]])
qed

lemma ledger_ok_startInitPing: "ledger_ok st \<Longrightarrow> ledger_ok (startInitPing st)"
  by (simp add: startInitPing_def stopInitPing_def postRaw_def Let_def ledger_ok_def
      pending_ids_def settled_ids_def)

lemma ledger_ok_handleLoad:
  assumes ok: "ledger_ok st"
  shows "ledger_ok (handleLoad st)"
proof -
  have a: "ledger_ok (st\<lparr>isReady := False, apiMethods := [], transportMode := Unknown,
                  legacyTabsCache := [], initPingCount := 0\<rparr>)"
    by (rule ledger_frame [OF ok]) simp_all
  have b: "ledger_ok (st\<lparr>isReady := False, apiMethods := [], transportMode := Unknown,
                  legacyTabsCache := [], initPingCount := 0, iframeRetryCount := 0\<rparr>)"
    by (rule ledger_frame [OF ok]) simp_all
  show ?thesis
    by (simp add: handleLoad_def Let_def ledger_ok_startInitPing [OF a]
        ledger_ok_startInitPing [OF b])
qed

lemma timer_entry:
  assumes ok: "ledger_ok st" and t: "RequestTimeout rid rtype timeoutMs \<in> set (timers st)"
  shows "map_of (pending st) rid = Some (RequestTimeout rid rtype timeoutMs)"
proof -
  note inv = ledger_okD [OF ok]
  from t have "RequestTimeout rid rtype timeoutMs \<in> set (filter is_request_timer (timers st))"
    by simp
  with inv(3) obtain e where e: "e \<in> set (pending st)" "snd e = RequestTimeout rid rtype timeoutMs"
    by auto
  with inv(2) have "fst e = rid" by fastforce
  with e have "(rid, RequestTimeout rid rtype timeoutMs) \<in> set (pending st)"
    by (metis prod.collapse)
  with inv(1) show ?thesis by (simp add: map_of_eq_Some_iff)
qed

lemma fire_request_timer:
  "RequestTimeout rid rtype timeoutMs \<in> set (timers st) \<Longrightarrow>
   fire_timer (RequestTimeout rid rtype timeoutMs) st =
     settle_promise rid (Rejected (TimedOut rtype timeoutMs))
       (pending_delete rid (clearTimeout (RequestTimeout rid rtype timeoutMs) st))"
  by (simp add: fire_timer_def clearTimeout_def pending_delete_def settle_promise_def)

lemma ledger_ok_fire_timer:
  assumes ok: "ledger_ok st"
  shows "ledger_ok (fire_timer t st)"
proof (cases "t \<in> set (timers st)")
  case False
  with ok show ?thesis by (simp add: fire_timer_def)
next
  case True
  show ?thesis
  proof (cases t)
    case (RetryReload src delay)
    show ?thesis
      by (rule ledger_frame [OF ok])
        (simp_all add: fire_timer_def RetryReload Let_def filter_remove1_other)
  next
    case (RequestTimeout rid rtype timeoutMs)
    with True have armed: "RequestTimeout rid rtype timeoutMs \<in> set (timers st)" by simp
    show ?thesis
      unfolding RequestTimeout fire_request_timer [OF armed]
      by (rule ledger_ok_settle_entry [OF ok timer_entry [OF ok armed]])
  qed
qed

lemma ledger_ok_step:
  assumes ok: "ledger_ok st"
  shows "ledger_ok (step st a)"
proof (cases a)
  case (Send rtype rdata timeoutOpt)
  then show ?thesis by (simp add: ledger_ok_request [OF ok])
next
  case (Receive p)
  then show ?thesis by (simp add: ledger_ok_handleMessage [OF ok])
next
  case (Fire t)
  then show ?thesis by (simp add: ledger_ok_fire_timer [OF ok])
next
  case PingTick
  then show ?thesis by (simp add: ledger_ok_pingTick [OF ok])
next
  case Load
  then show ?thesis by (simp add: ledger_ok_handleLoad [OF ok])
next
  case (CancelAll why)
  then show ?thesis by (simp add: ledger_ok_rejectPending [OF ok])
next
  case (StopReconnect why)
  then show ?thesis by (simp add: ledger_ok_stopReconnectAttempts [OF ok])
next
  case (Attach loginLink)
  have "ledger_ok (connectedCallback loginLink st)"
    by (rule ledger_frame [OF ok])
      (simp_all add: connectedCallback_def Let_def split: option.splits)
  with Attach show ?thesis by simp
next
  case Detach
  have "ledger_ok (stopInitPing (st\<lparr>contentWindow := False\<rparr>))"
    by (rule ledger_frame [OF ok]) (simp_all add: stopInitPing_def)
  then show ?thesis using Detach by (simp add: disconnectedCallback_def ledger_ok_rejectPending)
next
  case (SetClock now)
  have "ledger_ok (st\<lparr>clock := now\<rparr>)"
    by (rule ledger_frame [OF ok]) simp_all
  with SetClock show ?thesis by simp
qed

lemma ledger_ok_run: "ledger_ok st \<Longrightarrow> ledger_ok (run st acts)"
  unfolding run_def by (induction acts arbitrary: st) (simp_all add: ledger_ok_step)

lemma settle_absent:
  assumes "prequestId p = Some rid" and "rid \<notin> pending_ids st"
  shows "settle p st = None"
proof -
  from assms(2) have "map_of (pending st) rid = None"
    by (simp add: pending_ids_def map_of_eq_None_iff)
  with assms(1) show ?thesis by (simp add: settle_def)
qed

lemma handleMessage_unsettled: "settle p st = None \<Longrightarrow> ledger (handleMessage p st) = ledger st"
  by (simp add: handleMessage_def ledger_def setReady_def stopInitPing_def dispatchEvent_def
      Let_def split: option.splits)

lemma settle_removes:
  "settle p st = Some st' \<Longrightarrow> prequestId p = Some rid \<Longrightarrow> rid \<notin> pending_ids st'"
  by (auto simp: settle_def pending_ids_def settle_promise_def pending_delete_def
      clearTimeout_def split: option.splits)

lemma cause_frame: "settled st' = settled st \<Longrightarrow> cause_ok st \<Longrightarrow> cause_ok st'"
  by (simp add: cause_ok_def)

lemma cause_rejectPending: "cause_ok st \<Longrightarrow> cause_ok (rejectPending (Cancelled why) st)"
  by (auto simp: cause_ok_def rejectPending_eq list_all_iff)

lemma cause_stopReconnectAttempts: "cause_ok st \<Longrightarrow> cause_ok (stopReconnectAttempts why st)"
proof -
  assume ok: "cause_ok st"
  have "cause_ok (stopInitPing (st\<lparr>reconnectStopped := True\<rparr>))"
    by (rule cause_frame [OF _ ok]) (simp add: stopInitPing_def)
  then show ?thesis by (simp add: stopReconnectAttempts_def cause_rejectPending)
qed

lemma cause_settle: "cause_ok st \<Longrightarrow> settle p st = Some st' \<Longrightarrow> cause_ok st'"
  by (auto simp: settle_def cause_ok_def settle_promise_def pending_delete_def clearTimeout_def
      split: option.splits if_splits)

lemma cause_handleMessage:
  assumes ok: "cause_ok st"
  shows "cause_ok (handleMessage p st)"
proof (cases "settle p st")
  case (Some st')
  with ok have "cause_ok st'" by (simp add: cause_settle)
  with ok Some show ?thesis by (simp add: handleMessage_def split: option.splits)
next
  case None
  have "settled (handleMessage p st) = settled st"
    using handleMessage_unsettled [OF None] by (simp add: ledger_def)
  then show ?thesis using ok by (rule cause_frame)
qed

lemma cause_fire_timer: "cause_ok st \<Longrightarrow> cause_ok (fire_timer t st)"
  by (cases t)
    (auto simp: fire_timer_def cause_ok_def settle_promise_def pending_delete_def Let_def)

lemma cause_pingTick:
  assumes ok: "cause_ok st"
  shows "cause_ok (pingTick st)"
proof -
  have b: "cause_ok (st\<lparr>initPingCount := Suc (initPingCount st)\<rparr>)"
    by (rule cause_frame [OF _ ok]) simp
  have c: "cause_ok (retryIframeLoad (st\<lparr>initPingCount := Suc (initPingCount st)\<rparr>))"
    by (rule cause_frame [OF _ ok])
      (simp add: retryIframeLoad_def stopInitPing_def dispatchEvent_def Let_def)
  have d: "cause_ok (postRaw Init (st\<lparr>initPingCount := Suc (initPingCount st)\<rparr>))"
    by (rule cause_frame [OF _ ok]) (simp add: postRaw_def)
  have e: "cause_ok (dispatchEvent ev (stopReconnectAttempts why
              (st\<lparr>initPingCount := Suc (initPingCount st)\<rparr>)))" for ev why
    by (rule cause_frame [OF _ cause_stopReconnectAttempts [OF b]]) (simp add: dispatchEvent_def)
  have f: "cause_ok (stopInitPing st)"
    by (rule cause_frame [OF _ ok]) (simp add: stopInitPing_def)
  show ?thesis
    using ok c d e f by (simp add: pingTick_def Let_def)
qed

lemma cause_step:
  assumes ok: "cause_ok st"
  shows "cause_ok (step st a)"
proof (cases a)
  case (Send rtype rdata timeoutOpt)
  have "cause_ok (snd (request rtype rdata timeoutOpt st))"
    by (rule cause_frame [OF _ ok]) (simp add: request_def Let_def)
  with Send show ?thesis by simp
next
  case (Receive p)
  then show ?thesis by (simp add: cause_handleMessage [OF ok])
next
  case (Fire t)
  then show ?thesis by (simp add: cause_fire_timer [OF ok])
next
  case PingTick
  then show ?thesis by (simp add: cause_pingTick [OF ok])
next
  case Load
  have "cause_ok (handleLoad st)"
    by (rule cause_frame [OF _ ok])
      (simp add: handleLoad_def startInitPing_def stopInitPing_def postRaw_def Let_def)
  with Load show ?thesis by simp
next
  case (CancelAll why)
  then show ?thesis by (simp add: cause_rejectPending [OF ok])
next
  case (StopReconnect why)
  then show ?thesis by (simp add: cause_stopReconnectAttempts [OF ok])
next
  case (Attach loginLink)
  have "cause_ok (connectedCallback loginLink st)"
    by (rule cause_frame [OF _ ok])
      (simp add: connectedCallback_def Let_def split: option.splits)
  with Attach show ?thesis by simp
next
  case Detach
  have "cause_ok (stopInitPing (st\<lparr>contentWindow := False\<rparr>))"
    by (rule cause_frame [OF _ ok]) (simp add: stopInitPing_def)
  then show ?thesis using Detach by (simp add: disconnectedCallback_def cause_rejectPending)
next
  case (SetClock now)
  have "cause_ok (st\<lparr>clock := now\<rparr>)"
    by (rule cause_frame [OF _ ok]) simp
  with SetClock show ?thesis by simp
qed

lemma cause_run: "cause_ok st \<Longrightarrow> cause_ok (run st acts)"
  unfolding run_def by (induction acts arbitrary: st) (simp_all add: cause_step)

lemma cause_constructed: "cause_ok constructed"
  by (simp add: cause_ok_def constructed_def)

section \<open>Claims about the tab cache\<close>

text \<open>
  C6. After any finite sequence of tab-cache insert, update and remove operations, starting
  from the empty cache, the \<open>index\<close> field of every entry is the entry's position in the
  list.
\<close>

theorem tab_cache_reindexing:
  "\<forall>i < length (run_cache_ops ops). js_get (run_cache_ops ops ! i) ''index'' = JInt (int i)"
proof -
  have "indexed []" by (simp add: indexed_def)
  then have "indexed (run_cache_ops ops)"
    unfolding run_cache_ops_def by (rule indexed_foldl)
  then show ?thesis by (simp add: indexed_nth)
qed

theorem tab_cache_reindexing_witness:
  "length (run_cache_ops
      [Insert (DObject [''id'' \<mapsto> JStr ''a'']),
       Insert (DObject [''id'' \<mapsto> JStr ''b'', ''index'' \<mapsto> JInt 0]),
       Update (DObject [''id'' \<mapsto> JStr ''a'', ''index'' \<mapsto> JInt 7]),
       Insert (DObject [''id'' \<mapsto> JStr ''c'', ''index'' \<mapsto> JInt (- 1)])]) = 3
   \<and> js_get (run_cache_ops
      [Insert (DObject [''id'' \<mapsto> JStr ''a'']),
       Insert (DObject [''id'' \<mapsto> JStr ''b'', ''index'' \<mapsto> JInt 0]),
       Update (DObject [''id'' \<mapsto> JStr ''a'', ''index'' \<mapsto> JInt 7]),
       Insert (DObject [''id'' \<mapsto> JStr ''c'', ''index'' \<mapsto> JInt (- 1)])] ! 2) ''index'' = JInt 2
   \<and> js_get (run_cache_ops
      [Insert (DObject [''id'' \<mapsto> JStr ''a'']),
       Insert (DObject [''id'' \<mapsto> JStr ''b'', ''index'' \<mapsto> JInt 0]),
       Update (DObject [''id'' \<mapsto> JStr ''a'', ''index'' \<mapsto> JInt 7]),
       Insert (DObject [''id'' \<mapsto> JStr ''c'', ''index'' \<mapsto> JInt (- 1)])] ! 2) ''id'' = JStr ''a''"
proof -
  let ?ops = "[Insert (DObject [''id'' \<mapsto> JStr ''a'']),
       Insert (DObject [''id'' \<mapsto> JStr ''b'', ''index'' \<mapsto> JInt 0]),
       Update (DObject [''id'' \<mapsto> JStr ''a'', ''index'' \<mapsto> JInt 7]),
       Insert (DObject [''id'' \<mapsto> JStr ''c'', ''index'' \<mapsto> JInt (- 1)])]"
  have len: "length (run_cache_ops ?ops) = 3"
    by (simp add: run_cache_ops_def addLegacyTabCache_def updateLegacyTabCache_def
        reindex_def splice_insert_def js_get_def js_coalesce_def Let_def enumerate_eq_zip)
  have idv: "js_get (run_cache_ops ?ops ! 2) ''id'' = JStr ''a''"
    by (simp add: run_cache_ops_def addLegacyTabCache_def updateLegacyTabCache_def
        reindex_def splice_insert_def js_get_def js_coalesce_def Let_def enumerate_eq_zip)
  from tab_cache_reindexing [of ?ops] len
  have "js_get (run_cache_ops ?ops ! 2) ''index'' = JInt (int 2)" by simp
  with len idv show ?thesis by simp
qed

text \<open>
  C7, as the claim states it, fails: the notification's index does not win. An entry
  cached at position 0 and updated by a notification that supplies the index 5 keeps the
  index 0.
\<close>

theorem update_supplied_index_counterexample:
  "normalizeTabId (DObject [''id'' \<mapsto> JStr ''a'', ''index'' \<mapsto> JInt 5]) = Some ''a''
   \<and> findIndex (\<lambda>tab. normalizeTabId (DObject tab) = Some ''a'')
        (run_cache_ops [Insert (DObject [''id'' \<mapsto> JStr ''a''])]) = Some 0
   \<and> js_get [''id'' \<mapsto> JStr ''a'', ''index'' \<mapsto> JInt 5] ''index'' = JInt 5
   \<and> js_get (updateLegacyTabCache (DObject [''id'' \<mapsto> JStr ''a'', ''index'' \<mapsto> JInt 5])
        (run_cache_ops [Insert (DObject [''id'' \<mapsto> JStr ''a''])]) ! 0) ''index'' = JInt 0"
  by (simp add: run_cache_ops_def addLegacyTabCache_def updateLegacyTabCache_def
      reindex_def splice_insert_def js_get_def js_coalesce_def Let_def enumerate_eq_zip)

text \<open>
  C7, amended. An update notification that matches an entry by identifier (the first
  entry with that identifier, at position \<open>i\<close>) changes that entry only. The new entry
  has every field of the notification and, of the fields the notification lacks, those of
  the old entry; its \<open>index\<close> is the old entry's index when that is neither undefined
  nor null, else the notification's index when that is neither undefined nor null, else
  the position \<open>i\<close>.
\<close>

theorem update_merges_and_keeps_index:
  assumes "normalizeTabId (DObject d) = Some tabId"
    and "findIndex (\<lambda>tab. normalizeTabId (DObject tab) = Some tabId) cache = Some i"
  shows "i < length cache
    \<and> length (updateLegacyTabCache (DObject d) cache) = length cache
    \<and> (\<forall>j < length cache. j \<noteq> i \<longrightarrow> updateLegacyTabCache (DObject d) cache ! j = cache ! j)
    \<and> (\<forall>k. k \<noteq> ''index'' \<longrightarrow>
          (updateLegacyTabCache (DObject d) cache ! i) k =
            (case d k of Some v \<Rightarrow> Some v | None \<Rightarrow> (cache ! i) k))
    \<and> js_get (updateLegacyTabCache (DObject d) cache ! i) ''index'' =
          (if \<not> nullish (js_get (cache ! i) ''index'') then js_get (cache ! i) ''index''
           else if \<not> nullish (js_get d ''index'') then js_get d ''index''
           else JInt (int i))"
proof -
  from assms(2) have lt: "i < length cache" by (rule findIndex_Some [THEN conjunct1])
  have eq: "updateLegacyTabCache (DObject d) cache =
      cache[i := (cache ! i ++ d)(''index'' \<mapsto>
          js_coalesce (js_get (cache ! i) ''index'')
            (js_coalesce (js_get d ''index'') (JInt (int i))))]"
    using assms by (simp add: updateLegacyTabCache_def Let_def del: normalizeTabId.simps)
  show ?thesis
    unfolding eq using lt
    by (auto simp: js_get_def js_coalesce_def map_add_def split: option.splits)
qed

theorem update_merges_and_keeps_index_witness:
  "js_get (updateLegacyTabCache
        (DObject [''id'' \<mapsto> JStr ''a'', ''index'' \<mapsto> JInt 5, ''url'' \<mapsto> JStr ''u''])
        [[''id'' \<mapsto> JStr ''a'', ''index'' \<mapsto> JInt 0, ''title'' \<mapsto> JStr ''t'']] ! 0) ''index'' = JInt 0
   \<and> js_get (updateLegacyTabCache
        (DObject [''id'' \<mapsto> JStr ''a'', ''index'' \<mapsto> JInt 5, ''url'' \<mapsto> JStr ''u''])
        [[''id'' \<mapsto> JStr ''a'', ''index'' \<mapsto> JInt 0, ''title'' \<mapsto> JStr ''t'']] ! 0) ''url'' = JStr ''u''
   \<and> js_get (updateLegacyTabCache
        (DObject [''id'' \<mapsto> JStr ''a'', ''index'' \<mapsto> JInt 5, ''url'' \<mapsto> JStr ''u''])
        [[''id'' \<mapsto> JStr ''a'', ''index'' \<mapsto> JInt 0, ''title'' \<mapsto> JStr ''t'']] ! 0) ''title'' = JStr ''t''"
proof -
  let ?d = "[''id'' \<mapsto> JStr ''a'', ''index'' \<mapsto> JInt 5, ''url'' \<mapsto> JStr ''u'']"
  let ?cache = "[[''id'' \<mapsto> JStr ''a'', ''index'' \<mapsto> JInt 0, ''title'' \<mapsto> JStr ''t'']]"
  have a: "normalizeTabId (DObject ?d) = Some ''a''" by (simp add: js_get_def)
  have b: "findIndex (\<lambda>tab. normalizeTabId (DObject tab) = Some ''a'') ?cache = Some 0"
    by (simp add: js_get_def)
  from update_merges_and_keeps_index [OF a b]
  show ?thesis by (simp add: js_get_def)
qed

lemma filter_key_absent: "k \<notin> fst ` set xs \<Longrightarrow> filter (\<lambda>e. fst e = k) xs = []"
  by (induction xs) auto

lemma filter_key_distinct:
  "distinct (map fst xs) \<Longrightarrow> length (filter (\<lambda>e. fst e = k) xs) \<le> 1"
proof (induction xs)
  case Nil
  then show ?case by simp
next
  case (Cons e xs)
  show ?case
  proof (cases "fst e = k")
    case True
    with Cons.prems have "k \<notin> fst ` set xs" by auto
    with True show ?thesis by (simp add: filter_key_absent)
  next
    case False
    with Cons show ?thesis by simp
  qed
qed

lemma filter_key_present:
  "k \<in> fst ` set xs \<Longrightarrow> filter (\<lambda>e. fst e = k) xs \<noteq> []"
  by (induction xs) auto

lemma settlements_le_one: "ledger_ok st \<Longrightarrow> length (settlements rid st) \<le> 1"
  unfolding settlements_def length_map by (rule filter_key_distinct [OF ledger_okD(4)])

lemma settlements_pending:
  assumes "ledger_ok st" and "rid \<in> pending_ids st"
  shows "settlements rid st = []"
proof -
  from ledger_okD(5) [OF assms(1)] assms(2) have "rid \<notin> fst ` set (settled st)"
    by (auto simp: settled_ids_def)
  then show ?thesis by (simp add: settlements_def filter_key_absent)
qed

lemma settlements_settled:
  assumes "ledger_ok st" and "rid \<in> settled_ids st"
  shows "length (settlements rid st) = 1"
proof -
  from assms(2) have "filter (\<lambda>e. fst e = rid) (settled st) \<noteq> []"
    by (simp add: settled_ids_def filter_key_present)
  then have "length (settlements rid st) \<noteq> 0" by (simp add: settlements_def)
  with settlements_le_one [OF assms(1), of rid] show ?thesis by linarith
qed

lemma late_response_ignored:
  assumes "prequestId p = Some rid" and "rid \<notin> pending_ids st"
  shows "settle p st = None \<and> ledger (handleMessage p st) = ledger st"
  using settle_absent [OF assms] by (simp add: handleMessage_unsettled)

lemma timeout_settles:
  assumes ok: "ledger_ok st" and armed: "RequestTimeout rid rtype timeoutMs \<in> set (timers st)"
  shows "settlements rid (fire_timer (RequestTimeout rid rtype timeoutMs) st) =
           [Rejected (TimedOut rtype timeoutMs)]
       \<and> rid \<notin> pending_ids (fire_timer (RequestTimeout rid rtype timeoutMs) st)"
proof -
  from timer_entry [OF ok armed] have "(rid, RequestTimeout rid rtype timeoutMs) \<in> set (pending st)"
    by (rule map_of_SomeD)
  then have "rid \<in> pending_ids st" by (force simp: pending_ids_def)
  from settlements_pending [OF ok this] show ?thesis
    unfolding fire_request_timer [OF armed]
    by (auto simp: settlements_def settle_promise_def pending_delete_def clearTimeout_def
        pending_ids_def)
qed

lemma pending_armed:
  assumes ok: "ledger_ok st" and "rid \<in> pending_ids st"
  shows "\<exists>rtype timeoutMs. RequestTimeout rid rtype timeoutMs \<in> set (timers st)"
proof -
  note inv = ledger_okD [OF ok]
  from assms(2) obtain e where e: "e \<in> set (pending st)" "fst e = rid"
    by (auto simp: pending_ids_def)
  with inv(2) obtain rtype timeoutMs where t: "snd e = RequestTimeout rid rtype timeoutMs"
    by fastforce
  from e have "snd e \<in> set (map snd (pending st))" by simp
  with inv(3) have "snd e \<in> set (filter is_request_timer (timers st))" by simp
  then have "snd e \<in> set (timers st)" by simp
  with t show ?thesis by auto
qed

lemma unarmed_not_pending:
  assumes ok: "ledger_ok st" and "rid \<notin> pending_ids st"
  shows "RequestTimeout rid rtype timeoutMs \<notin> set (timers st)"
proof
  assume "RequestTimeout rid rtype timeoutMs \<in> set (timers st)"
  from timer_entry [OF ok this] have "(rid, RequestTimeout rid rtype timeoutMs) \<in> set (pending st)"
    by (rule map_of_SomeD)
  then have "rid \<in> pending_ids st" by (force simp: pending_ids_def)
  with assms(2) show False by simp
qed

lemma settlements_cause: "cause_ok st \<Longrightarrow> list_all settled_by_ledger (settlements rid st)"
  by (auto simp: cause_ok_def settlements_def list_all_iff)

lemma filter_key_single:
  "distinct (map fst xs) \<Longrightarrow> k \<in> fst ` set xs \<Longrightarrow>
   \<exists>e. filter (\<lambda>e. fst e = k) xs = [e] \<and> fst e = k"
proof (induction xs)
  case Nil
  then show ?case by simp
next
  case (Cons x xs)
  show ?case
  proof (cases "fst x = k")
    case True
    with Cons.prems have "k \<notin> fst ` set xs" by auto
    with True show ?thesis by (simp add: filter_key_absent)
  next
    case False
    with Cons show ?thesis by auto
  qed
qed

lemma filter_key_map:
  "filter (\<lambda>e. fst e = k) (map (\<lambda>e. (fst e, c)) xs) =
     map (\<lambda>e. (fst e, c)) (filter (\<lambda>e. fst e = k) xs)"
  by (induction xs) simp_all

lemma pending_entry:
  assumes "rid \<in> pending_ids st"
  shows "\<exists>t. map_of (pending st) rid = Some t"
proof (cases "map_of (pending st) rid")
  case None
  then have "rid \<notin> fst ` set (pending st)" by (simp add: map_of_eq_None_iff)
  with assms show ?thesis by (simp add: pending_ids_def)
next
  case (Some t)
  then show ?thesis by simp
qed

lemma response_settles:
  assumes ok: "ledger_ok st" and f: "fromFrame p"
    and o: "validateIncomingOrigin (origin p) st" and ty: "ptype p = Some ty"
    and id: "prequestId p = Some rid" and pend: "rid \<in> pending_ids st"
  shows "settle p st = Some (handleMessage p st)"
    and "settlements rid (handleMessage p st) =
           [if perror p \<noteq> [] then Rejected (PeerError (perror p)) else Resolved (pdata p)]"
    and "rid \<notin> pending_ids (handleMessage p st)"
    and "ledger_ok (handleMessage p st)"
proof -
  from pending_entry [OF pend] obtain t where t: "map_of (pending st) rid = Some t" by blast
  let ?s = "if perror p \<noteq> [] then Rejected (PeerError (perror p)) else Resolved (pdata p)"
  let ?st' = "settle_promise rid ?s (pending_delete rid (clearTimeout t st))"
  have s: "settle p st = Some ?st'" by (simp add: settle_def id t)
  have h: "handleMessage p st = ?st'" by (simp add: handleMessage_def f o ty s)
  show "settle p st = Some (handleMessage p st)" by (simp add: s h)
  have "settlements rid ?st' = settlements rid st @ [?s]"
    by (simp add: settlements_def settle_promise_def pending_delete_def clearTimeout_def)
  with settlements_pending [OF ok pend]
  show "settlements rid (handleMessage p st) =
           [if perror p \<noteq> [] then Rejected (PeerError (perror p)) else Resolved (pdata p)]"
    by (simp add: h)
  from settle_removes [OF s id] show "rid \<notin> pending_ids (handleMessage p st)" by (simp add: h)
  from ledger_ok_settle [OF ok s] show "ledger_ok (handleMessage p st)" by (simp add: h)
qed

lemma cancel_settles:
  assumes ok: "ledger_ok st"
  shows "rid \<in> pending_ids st \<Longrightarrow> settlements rid (rejectPending err st) = [Rejected err]"
    and "rid \<notin> pending_ids st \<Longrightarrow> settlements rid (rejectPending err st) = settlements rid st"
    and "pending_ids (rejectPending err st) = {}"
proof -
  have split: "settlements rid (rejectPending err st) =
      settlements rid st @
      map snd (map (\<lambda>e. (fst e, Rejected err)) (filter (\<lambda>e. fst e = rid) (pending st)))"
    by (simp add: settlements_def rejectPending_eq filter_key_map)
  show "settlements rid (rejectPending err st) = [Rejected err]" if pend: "rid \<in> pending_ids st"
  proof -
    from pend have "rid \<in> fst ` set (pending st)" by (simp add: pending_ids_def)
    from filter_key_single [OF ledger_okD(1) [OF ok] this]
    obtain e where "filter (\<lambda>e. fst e = rid) (pending st) = [e]" by blast
    with settlements_pending [OF ok pend] show ?thesis by (simp add: split)
  qed
  show "settlements rid (rejectPending err st) = settlements rid st"
    if "rid \<notin> pending_ids st"
  proof -
    from that have "rid \<notin> fst ` set (pending st)" by (simp add: pending_ids_def)
    then show ?thesis by (simp add: split filter_key_absent)
  qed
  show "pending_ids (rejectPending err st) = {}"
    by (simp add: pending_ids_def rejectPending_eq)
qed

text \<open>
  Once a request is out of the ledger nothing settles it again: a message with its id
  settles nothing, its timeout is not armed and so does not fire, and a bulk cancellation
  passes it by.
\<close>

lemma settled_for_good:
  assumes ok: "ledger_ok st" and out: "rid \<notin> pending_ids st"
  shows "prequestId p = Some rid \<Longrightarrow> settle p st = None"
    and "prequestId p = Some rid \<Longrightarrow> ledger (handleMessage p st) = ledger st"
    and "fire_timer (RequestTimeout rid rtype timeoutMs) st = st"
    and "settlements rid (rejectPending err st) = settlements rid st"
proof -
  show "settle p st = None" if "prequestId p = Some rid"
    using late_response_ignored [OF that out] by simp
  show "ledger (handleMessage p st) = ledger st" if "prequestId p = Some rid"
    using late_response_ignored [OF that out] by simp
  from unarmed_not_pending [OF ok out]
  show "fire_timer (RequestTimeout rid rtype timeoutMs) st = st"
    by (simp add: fire_timer_def)
  from cancel_settles(2) [OF ok out]
  show "settlements rid (rejectPending err st) = settlements rid st" .
qed

section \<open>Claims about the ledger\<close>

text \<open>
  C1. In every state the element reaches from its construction, whatever is sent,
  received, timed out or cancelled on the way:
  \<^item> a message that carries the id of a request that is not in the ledger settles
    nothing: the settlement block of \<open>_handleMessage\<close> does not run, and the entries, the
    armed timers and the settlements are as they were (the message then goes on to the
    handling of unsolicited messages, which touches none of them);
  \<^item> once a message has settled a request, the same message a second time settles
    nothing;
  \<^item> when the timeout of a request fires, the request leaves the ledger and its promise
    is rejected with the timeout error; a response for it that arrives afterwards settles
    nothing;
  \<^item> no promise is settled more than once, and what settles it is a response, its
    timeout or a bulk cancellation;
  \<^item> every request that was posted is either still in the ledger, unsettled and with its
    timeout armed, or out of the ledger, settled exactly once and with no timer left;
  \<^item> a response from the frame for a request in the ledger settles it: the promise is
    resolved with the data, or rejected with the peer's error, and the request leaves the
    ledger; afterwards the same response settles nothing, the timeout does not fire and a
    bulk cancellation does not reach the request;
  \<^item> after the timeout of a request has fired, a bulk cancellation does not reach the
    request and the timeout does not fire again;
  \<^item> a bulk cancellation rejects every request in the ledger with its reason and empties
    the ledger; afterwards a response for such a request settles nothing and its timeout
    does not fire.
\<close>

theorem request_settled_exactly_once:
  assumes "st = run constructed acts"
  shows "(\<forall>p rid. prequestId p = Some rid \<and> rid \<notin> pending_ids st \<longrightarrow>
            settle p st = None \<and> ledger (handleMessage p st) = ledger st)
    \<and> (\<forall>p st'. settle p st = Some st' \<longrightarrow>
            settle p st' = None \<and> ledger (handleMessage p st') = ledger st')
    \<and> (\<forall>p rid rtype timeoutMs.
          RequestTimeout rid rtype timeoutMs \<in> set (timers st) \<and> prequestId p = Some rid \<longrightarrow>
            settlements rid (fire_timer (RequestTimeout rid rtype timeoutMs) st) =
              [Rejected (TimedOut rtype timeoutMs)]
            \<and> rid \<notin> pending_ids (fire_timer (RequestTimeout rid rtype timeoutMs) st)
            \<and> settle p (fire_timer (RequestTimeout rid rtype timeoutMs) st) = None
            \<and> ledger (handleMessage p (fire_timer (RequestTimeout rid rtype timeoutMs) st)) =
                ledger (fire_timer (RequestTimeout rid rtype timeoutMs) st))
    \<and> (\<forall>rid. length (settlements rid st) \<le> 1
          \<and> list_all settled_by_ledger (settlements rid st))
    \<and> (\<forall>rtype rid rdata. Request rtype rid rdata \<in> set (outbox st) \<longrightarrow>
          (rid \<in> pending_ids st \<and> settlements rid st = []
             \<and> (\<exists>rtype' timeoutMs. RequestTimeout rid rtype' timeoutMs \<in> set (timers st)))
          \<or> (rid \<notin> pending_ids st \<and> length (settlements rid st) = 1
             \<and> (\<forall>rtype' timeoutMs. RequestTimeout rid rtype' timeoutMs \<notin> set (timers st))))
    \<and> (\<forall>p rid ty. fromFrame p \<and> validateIncomingOrigin (origin p) st \<and> ptype p = Some ty
            \<and> prequestId p = Some rid \<and> rid \<in> pending_ids st \<longrightarrow>
          settle p st = Some (handleMessage p st)
          \<and> settlements rid (handleMessage p st) =
              [if perror p \<noteq> [] then Rejected (PeerError (perror p)) else Resolved (pdata p)]
          \<and> rid \<notin> pending_ids (handleMessage p st)
          \<and> settle p (handleMessage p st) = None
          \<and> ledger (handleMessage p (handleMessage p st)) = ledger (handleMessage p st)
          \<and> (\<forall>rtype timeoutMs.
                fire_timer (RequestTimeout rid rtype timeoutMs) (handleMessage p st) =
                  handleMessage p st)
          \<and> (\<forall>err. settlements rid (rejectPending err (handleMessage p st)) =
                settlements rid (handleMessage p st)))
    \<and> (\<forall>rid rtype timeoutMs err.
          RequestTimeout rid rtype timeoutMs \<in> set (timers st) \<longrightarrow>
            settlements rid
                (rejectPending err (fire_timer (RequestTimeout rid rtype timeoutMs) st)) =
              [Rejected (TimedOut rtype timeoutMs)]
            \<and> fire_timer (RequestTimeout rid rtype timeoutMs)
                (fire_timer (RequestTimeout rid rtype timeoutMs) st) =
              fire_timer (RequestTimeout rid rtype timeoutMs) st)
    \<and> (\<forall>rid err. rid \<in> pending_ids st \<longrightarrow>
          settlements rid (rejectPending err st) = [Rejected err]
          \<and> pending_ids (rejectPending err st) = {}
          \<and> (\<forall>p. prequestId p = Some rid \<longrightarrow>
                settle p (rejectPending err st) = None
                \<and> ledger (handleMessage p (rejectPending err st)) =
                    ledger (rejectPending err st))
          \<and> (\<forall>rtype timeoutMs.
                fire_timer (RequestTimeout rid rtype timeoutMs) (rejectPending err st) =
                  rejectPending err st))"
proof -
  have ok: "ledger_ok st"
    unfolding assms by (rule ledger_ok_run [OF ledger_ok_constructed])
  have cause: "cause_ok st"
    unfolding assms by (rule cause_run [OF cause_constructed])
  have one: "\<forall>p rid. prequestId p = Some rid \<and> rid \<notin> pending_ids st \<longrightarrow>
            settle p st = None \<and> ledger (handleMessage p st) = ledger st"
    using late_response_ignored by blast
  have two: "\<forall>p st'. settle p st = Some st' \<longrightarrow>
            settle p st' = None \<and> ledger (handleMessage p st') = ledger st'"
  proof (intro allI impI)
    fix p :: inbound and st' :: state
    assume s: "settle p st = Some st'"
    then obtain rid where rid: "prequestId p = Some rid"
      by (auto simp: settle_def split: option.splits)
    from settle_removes [OF s rid] have "rid \<notin> pending_ids st'" .
    from late_response_ignored [OF rid this]
    show "settle p st' = None \<and> ledger (handleMessage p st') = ledger st'" .
  qed
  have three: "\<forall>p rid rtype timeoutMs.
          RequestTimeout rid rtype timeoutMs \<in> set (timers st) \<and> prequestId p = Some rid \<longrightarrow>
            settlements rid (fire_timer (RequestTimeout rid rtype timeoutMs) st) =
              [Rejected (TimedOut rtype timeoutMs)]
            \<and> rid \<notin> pending_ids (fire_timer (RequestTimeout rid rtype timeoutMs) st)
            \<and> settle p (fire_timer (RequestTimeout rid rtype timeoutMs) st) = None
            \<and> ledger (handleMessage p (fire_timer (RequestTimeout rid rtype timeoutMs) st)) =
                ledger (fire_timer (RequestTimeout rid rtype timeoutMs) st)"
  proof (intro allI impI)
    fix p :: inbound and rid :: reqid and rtype :: string and timeoutMs :: int
    assume a: "RequestTimeout rid rtype timeoutMs \<in> set (timers st) \<and> prequestId p = Some rid"
    let ?st' = "fire_timer (RequestTimeout rid rtype timeoutMs) st"
    from timeout_settles [OF ok a [THEN conjunct1]]
    have t: "settlements rid ?st' = [Rejected (TimedOut rtype timeoutMs)]"
      and n: "rid \<notin> pending_ids ?st'" by simp_all
    from late_response_ignored [OF a [THEN conjunct2] n] t n
    show "settlements rid ?st' = [Rejected (TimedOut rtype timeoutMs)]
            \<and> rid \<notin> pending_ids ?st' \<and> settle p ?st' = None
            \<and> ledger (handleMessage p ?st') = ledger ?st'" by simp
  qed
  have four: "\<forall>rid. length (settlements rid st) \<le> 1
          \<and> list_all settled_by_ledger (settlements rid st)"
    using settlements_le_one [OF ok] settlements_cause [OF cause] by simp
  have five: "\<forall>rtype rid rdata. Request rtype rid rdata \<in> set (outbox st) \<longrightarrow>
          (rid \<in> pending_ids st \<and> settlements rid st = []
             \<and> (\<exists>rtype' timeoutMs. RequestTimeout rid rtype' timeoutMs \<in> set (timers st)))
          \<or> (rid \<notin> pending_ids st \<and> length (settlements rid st) = 1
             \<and> (\<forall>rtype' timeoutMs. RequestTimeout rid rtype' timeoutMs \<notin> set (timers st)))"
  proof (intro allI impI)
    fix rtype rid rdata
    assume "Request rtype rid rdata \<in> set (outbox st)"
    with ledger_okD(7) [OF ok] have mem: "rid \<in> pending_ids st \<union> settled_ids st" by blast
    show "(rid \<in> pending_ids st \<and> settlements rid st = []
             \<and> (\<exists>rtype' timeoutMs. RequestTimeout rid rtype' timeoutMs \<in> set (timers st)))
          \<or> (rid \<notin> pending_ids st \<and> length (settlements rid st) = 1
             \<and> (\<forall>rtype' timeoutMs. RequestTimeout rid rtype' timeoutMs \<notin> set (timers st)))"
    proof (cases "rid \<in> pending_ids st")
      case True
      with settlements_pending [OF ok True] pending_armed [OF ok True] show ?thesis by blast
    next
      case False
      with mem have "rid \<in> settled_ids st" by blast
      from settlements_settled [OF ok this] unarmed_not_pending [OF ok False] False
      show ?thesis by blast
    qed
  qed
  have six: "\<forall>p rid ty. fromFrame p \<and> validateIncomingOrigin (origin p) st \<and> ptype p = Some ty
            \<and> prequestId p = Some rid \<and> rid \<in> pending_ids st \<longrightarrow>
          settle p st = Some (handleMessage p st)
          \<and> settlements rid (handleMessage p st) =
              [if perror p \<noteq> [] then Rejected (PeerError (perror p)) else Resolved (pdata p)]
          \<and> rid \<notin> pending_ids (handleMessage p st)
          \<and> settle p (handleMessage p st) = None
          \<and> ledger (handleMessage p (handleMessage p st)) = ledger (handleMessage p st)
          \<and> (\<forall>rtype timeoutMs.
                fire_timer (RequestTimeout rid rtype timeoutMs) (handleMessage p st) =
                  handleMessage p st)
          \<and> (\<forall>err. settlements rid (rejectPending err (handleMessage p st)) =
                settlements rid (handleMessage p st))"
  proof (intro allI impI)
    fix p :: inbound and rid :: reqid and ty :: string
    assume a: "fromFrame p \<and> validateIncomingOrigin (origin p) st \<and> ptype p = Some ty
            \<and> prequestId p = Some rid \<and> rid \<in> pending_ids st"
    then have f: "fromFrame p" and o: "validateIncomingOrigin (origin p) st"
      and ty: "ptype p = Some ty" and id: "prequestId p = Some rid"
      and pend: "rid \<in> pending_ids st" by simp_all
    note r = response_settles [OF ok f o ty id pend]
    note g = settled_for_good [OF r(4) r(3)]
    from r(1) r(2) r(3) g(1) [OF id] g(2) [OF id] g(3) g(4)
    show "settle p st = Some (handleMessage p st)
          \<and> settlements rid (handleMessage p st) =
              [if perror p \<noteq> [] then Rejected (PeerError (perror p)) else Resolved (pdata p)]
          \<and> rid \<notin> pending_ids (handleMessage p st)
          \<and> settle p (handleMessage p st) = None
          \<and> ledger (handleMessage p (handleMessage p st)) = ledger (handleMessage p st)
          \<and> (\<forall>rtype timeoutMs.
                fire_timer (RequestTimeout rid rtype timeoutMs) (handleMessage p st) =
                  handleMessage p st)
          \<and> (\<forall>err. settlements rid (rejectPending err (handleMessage p st)) =
                settlements rid (handleMessage p st))"
      by (intro conjI allI)
  qed
  have seven: "\<forall>rid rtype timeoutMs err.
          RequestTimeout rid rtype timeoutMs \<in> set (timers st) \<longrightarrow>
            settlements rid
                (rejectPending err (fire_timer (RequestTimeout rid rtype timeoutMs) st)) =
              [Rejected (TimedOut rtype timeoutMs)]
            \<and> fire_timer (RequestTimeout rid rtype timeoutMs)
                (fire_timer (RequestTimeout rid rtype timeoutMs) st) =
              fire_timer (RequestTimeout rid rtype timeoutMs) st"
  proof (intro allI impI)
    fix rid :: reqid and rtype :: string and timeoutMs :: int and err :: reason
    assume a: "RequestTimeout rid rtype timeoutMs \<in> set (timers st)"
    let ?st' = "fire_timer (RequestTimeout rid rtype timeoutMs) st"
    from timeout_settles [OF ok a]
    have t: "settlements rid ?st' = [Rejected (TimedOut rtype timeoutMs)]"
      and n: "rid \<notin> pending_ids ?st'" by simp_all
    note g = settled_for_good [OF ledger_ok_fire_timer [OF ok] n]
    from g(4) [of err] t g(3) [of rtype timeoutMs]
    show "settlements rid (rejectPending err ?st') = [Rejected (TimedOut rtype timeoutMs)]
        \<and> fire_timer (RequestTimeout rid rtype timeoutMs) ?st' = ?st'" by simp
  qed
  have eight: "\<forall>rid err. rid \<in> pending_ids st \<longrightarrow>
          settlements rid (rejectPending err st) = [Rejected err]
          \<and> pending_ids (rejectPending err st) = {}
          \<and> (\<forall>p. prequestId p = Some rid \<longrightarrow>
                settle p (rejectPending err st) = None
                \<and> ledger (handleMessage p (rejectPending err st)) =
                    ledger (rejectPending err st))
          \<and> (\<forall>rtype timeoutMs.
                fire_timer (RequestTimeout rid rtype timeoutMs) (rejectPending err st) =
                  rejectPending err st)"
  proof (intro allI impI)
    fix rid :: reqid and err :: reason
    assume pend: "rid \<in> pending_ids st"
    note c = cancel_settles [OF ok]
    have out: "rid \<notin> pending_ids (rejectPending err st)" by (simp add: c(3))
    note g = settled_for_good [OF ledger_ok_rejectPending [OF ok] out]
    from c(1) [OF pend] c(3) g(1) g(2) g(3)
    show "settlements rid (rejectPending err st) = [Rejected err]
          \<and> pending_ids (rejectPending err st) = {}
          \<and> (\<forall>p. prequestId p = Some rid \<longrightarrow>
                settle p (rejectPending err st) = None
                \<and> ledger (handleMessage p (rejectPending err st)) =
                    ledger (rejectPending err st))
          \<and> (\<forall>rtype timeoutMs.
                fire_timer (RequestTimeout rid rtype timeoutMs) (rejectPending err st) =
                  rejectPending err st)"
      by (intro conjI allI impI)
  qed
  from one two three four five six seven eight show ?thesis by (intro conjI)
qed

theorem request_settled_exactly_once_witness:
  "(0, 1) \<in> pending_ids (run constructed [Attach (Some ''https://bbx.example/login''),
            Send ''getTabs'' NoData None])
   \<and> RequestTimeout (0, 1) ''getTabs'' 30000
      \<in> set (timers (run constructed [Attach (Some ''https://bbx.example/login''),
            Send ''getTabs'' NoData None]))
   \<and> settlements (0, 1)
        (fire_timer (RequestTimeout (0, 1) ''getTabs'' 30000)
          (run constructed [Attach (Some ''https://bbx.example/login''),
            Send ''getTabs'' NoData None])) = [Rejected (TimedOut ''getTabs'' 30000)]
   \<and> settle \<lparr>fromFrame = True, origin = ''https://bbx.example'', ptype = Some ''getTabs'',
          prequestId = Some (0, 1), perror = [], pdata = DArray [], pmethods = None\<rparr>
        (fire_timer (RequestTimeout (0, 1) ''getTabs'' 30000)
          (run constructed [Attach (Some ''https://bbx.example/login''),
            Send ''getTabs'' NoData None])) = None
   \<and> ledger (handleMessage
          \<lparr>fromFrame = True, origin = ''https://bbx.example'', ptype = Some ''getTabs'',
            prequestId = Some (0, 1), perror = [], pdata = DArray [], pmethods = None\<rparr>
          (fire_timer (RequestTimeout (0, 1) ''getTabs'' 30000)
            (run constructed [Attach (Some ''https://bbx.example/login''),
              Send ''getTabs'' NoData None]))) =
       ledger (fire_timer (RequestTimeout (0, 1) ''getTabs'' 30000)
          (run constructed [Attach (Some ''https://bbx.example/login''),
            Send ''getTabs'' NoData None]))
   \<and> settlements (0, 1)
        (handleMessage
          \<lparr>fromFrame = True, origin = ''https://bbx.example'', ptype = Some ''getTabs'',
            prequestId = Some (0, 1), perror = [], pdata = DArray [], pmethods = None\<rparr>
          (run constructed [Attach (Some ''https://bbx.example/login''),
            Send ''getTabs'' NoData None])) = [Resolved (DArray [])]
   \<and> settle \<lparr>fromFrame = True, origin = ''https://bbx.example'', ptype = Some ''getTabs'',
          prequestId = Some (0, 1), perror = [], pdata = DArray [], pmethods = None\<rparr>
        (handleMessage
          \<lparr>fromFrame = True, origin = ''https://bbx.example'', ptype = Some ''getTabs'',
            prequestId = Some (0, 1), perror = [], pdata = DArray [], pmethods = None\<rparr>
          (run constructed [Attach (Some ''https://bbx.example/login''),
            Send ''getTabs'' NoData None])) = None
   \<and> settlements (0, 1)
        (rejectPending (Cancelled ''browserbox-webview refresh'')
          (run constructed [Attach (Some ''https://bbx.example/login''),
            Send ''getTabs'' NoData None])) =
       [Rejected (Cancelled ''browserbox-webview refresh'')]
   \<and> settle \<lparr>fromFrame = True, origin = ''https://bbx.example'', ptype = Some ''getTabs'',
          prequestId = Some (0, 1), perror = [], pdata = DArray [], pmethods = None\<rparr>
        (rejectPending (Cancelled ''browserbox-webview refresh'')
          (run constructed [Attach (Some ''https://bbx.example/login''),
            Send ''getTabs'' NoData None])) = None"
proof -
  let ?acts = "[Attach (Some ''https://bbx.example/login''), Send ''getTabs'' NoData None]"
  let ?st = "run constructed ?acts"
  let ?p = "\<lparr>fromFrame = True, origin = ''https://bbx.example'', ptype = Some ''getTabs'',
          prequestId = Some (0, 1), perror = [], pdata = DArray [], pmethods = None\<rparr>"
  let ?t = "RequestTimeout (0, 1) ''getTabs'' 30000"
  let ?c = "Cancelled ''browserbox-webview refresh''"
  have st: "?st = constructed\<lparr>contentWindow := True, iframeSrc := ''https://bbx.example/login'',
      requestSeq := 1, timers := [?t], pending := [((0, 1), ?t)],
      outbox := [Request ''getTabs'' (0, 1) NoData]\<rparr>"
    by (simp add: run_def constructed_def connectedCallback_def request_def
        requestTimeoutMs_def Let_def)
  have armed: "?t \<in> set (timers ?st)" unfolding st by simp
  have pend: "(0, 1) \<in> pending_ids ?st" unfolding st by (simp add: pending_ids_def)
  have id: "prequestId ?p = Some (0, 1)" by simp
  have fr: "fromFrame ?p" and ty: "ptype ?p = Some ''getTabs''" by simp_all
  have org: "validateIncomingOrigin (origin ?p) ?st"
    unfolding st by (simp add: validateIncomingOrigin_def allowedOrigin_def constructed_def)
  have er: "perror ?p = []" and da: "pdata ?p = DArray []" by simp_all
  note main = request_settled_exactly_once [OF refl, of ?acts]
  from main [THEN conjunct2, THEN conjunct2, THEN conjunct1]
  have "\<forall>p rid rtype timeoutMs.
          RequestTimeout rid rtype timeoutMs \<in> set (timers ?st) \<and> prequestId p = Some rid \<longrightarrow>
            settlements rid (fire_timer (RequestTimeout rid rtype timeoutMs) ?st) =
              [Rejected (TimedOut rtype timeoutMs)]
            \<and> rid \<notin> pending_ids (fire_timer (RequestTimeout rid rtype timeoutMs) ?st)
            \<and> settle p (fire_timer (RequestTimeout rid rtype timeoutMs) ?st) = None
            \<and> ledger (handleMessage p (fire_timer (RequestTimeout rid rtype timeoutMs) ?st)) =
                ledger (fire_timer (RequestTimeout rid rtype timeoutMs) ?st)" .
  from this [THEN spec, THEN spec, THEN spec, THEN spec, THEN mp, OF conjI, OF armed id]
  have a: "settlements (0, 1) (fire_timer ?t ?st) = [Rejected (TimedOut ''getTabs'' 30000)]"
    and b: "settle ?p (fire_timer ?t ?st) = None"
    and c: "ledger (handleMessage ?p (fire_timer ?t ?st)) = ledger (fire_timer ?t ?st)"
    by blast+
  from main [THEN conjunct2, THEN conjunct2, THEN conjunct2, THEN conjunct2, THEN conjunct2,
      THEN conjunct1]
  have "\<forall>p rid ty. fromFrame p \<and> validateIncomingOrigin (origin p) ?st
            \<and> ptype p = Some ty \<and> prequestId p = Some rid \<and> rid \<in> pending_ids ?st \<longrightarrow>
          settlements rid (handleMessage p ?st) =
              [if perror p \<noteq> [] then Rejected (PeerError (perror p)) else Resolved (pdata p)]
          \<and> settle p (handleMessage p ?st) = None"
    by blast
  from this [THEN spec, THEN spec, THEN spec, THEN mp,
      OF conjI [OF fr conjI [OF org conjI [OF ty conjI [OF id pend]]]]]
  have "settlements (0, 1) (handleMessage ?p ?st) =
              [if perror ?p \<noteq> [] then Rejected (PeerError (perror ?p)) else Resolved (pdata ?p)]
          \<and> settle ?p (handleMessage ?p ?st) = None"
    by blast
  then have d: "settlements (0, 1) (handleMessage ?p ?st) = [Resolved (DArray [])]"
    and e: "settle ?p (handleMessage ?p ?st) = None"
    unfolding er da by simp_all
  from main [THEN conjunct2, THEN conjunct2, THEN conjunct2, THEN conjunct2, THEN conjunct2,
      THEN conjunct2, THEN conjunct2]
  have "\<forall>rid err. rid \<in> pending_ids ?st \<longrightarrow>
          settlements rid (rejectPending err ?st) = [Rejected err]
          \<and> (\<forall>p. prequestId p = Some rid \<longrightarrow> settle p (rejectPending err ?st) = None)"
    by blast
  from this [THEN spec, THEN spec, THEN mp, OF pend, of ?c] id
  have f: "settlements (0, 1) (rejectPending ?c ?st) = [Rejected ?c]"
    and g: "settle ?p (rejectPending ?c ?st) = None"
    by blast+
  from pend armed a b c d e f g show ?thesis by (intro conjI)
qed

section \<open>Facts about the legacy handlers\<close>

lemma settle_request_fields:
  "legacyTabsCache (settle_request rid s st) = legacyTabsCache st"
  "contentWindow (settle_request rid s st) = contentWindow st"
  "outbox (settle_request rid s st) = outbox st"
  "transportMode (settle_request rid s st) = transportMode st"
  "isReady (settle_request rid s st) = isReady st"
  "requestTimeoutAttr (settle_request rid s st) = requestTimeoutAttr st"
  by (simp_all add: settle_request_def settle_promise_def pending_delete_def clearTimeout_def
      split: option.splits)

lemma length_stamp: "length (stamp ts) = length ts"
  by (simp add: stamp_def)

lemma stamp_nth:
  "i < length ts \<Longrightarrow> stamp ts ! i = [''index'' \<mapsto> JInt (int i)] ++ (ts ! i)"
  by (simp add: stamp_def nth_enumerate_eq)

lemma getTabs_start_unavailable:
  "\<not> contentWindow st \<Longrightarrow> getTabs_start st = (Inl IframeNotReady, st)"
  by (simp add: getTabs_start_def request_unavailable)

lemma getTabs_start_available:
  "contentWindow st \<Longrightarrow>
   fst (getTabs_start st) = Inr (clock st, requestSeq st + 1)
   \<and> outbox (snd (getTabs_start st)) =
       outbox st @ [Request ''getTabs'' (clock st, requestSeq st + 1) NoData]"
  by (simp add: getTabs_start_def request_available)

lemma getTabs_finish_array:
  "getTabs_finish (Resolved (DArray ts)) st = (stamp ts, st\<lparr>legacyTabsCache := stamp ts\<rparr>)"
  by (simp add: getTabs_finish_def Let_def)

lemma getTabs_finish_rejected:
  "getTabs_finish (Rejected err) st =
     (stamp (legacyTabsCache st), st\<lparr>legacyTabsCache := stamp (legacyTabsCache st)\<rparr>)"
  by (simp add: getTabs_finish_def Let_def)

section \<open>Claims about the legacy handlers\<close>

text \<open>
  C8 fails on the code. An attached element is ready after the legacy readiness signal;
  \<open>callApi('getTabs')\<close> posts the probe, the probe times out, the mode becomes legacy and
  the legacy \<open>getTabs\<close> posts its query. The peer answers with three tabs: the first
  carries the \<open>index\<close> 7, the second the \<open>index\<close> null, the third none. In
  \<open>{ index, ...tab }\<close> the spread comes after the position, so the list returned has the
  index fields 7, null and 2, not 0, 1 and 2; the tab cache is set to that list, and so
  no longer has every entry's \<open>index\<close> equal to its position, which is what
  \<open>_addLegacyTabCache\<close> and \<open>_removeLegacyTabCache\<close> establish with
  \<open>{ ...tab, index: i }\<close>.
\<close>

theorem getTabs_supplied_index_overrides_position:
  "(let st0 = run constructed
        [Attach (Some ''https://bbx.example/login''), Load,
         Receive \<lparr>fromFrame = True, origin = ''https://bbx.example'',
           ptype = Some ''tab-api-ready'', prequestId = None, perror = [],
           pdata = DPrim JUndefined, pmethods = None\<rparr>];
       c0 = callApi_start (DPrim (JStr ''getTabs'')) [] st0;
       c1 = callApi_ready ''getTabs'' [] (snd c0);
       st1 = fire_timer (RequestTimeout (0, 1) ''bbx-api-call'' 5000) (snd c1);
       c2 = callApi_probed ''getTabs'' [] (Rejected (TimedOut ''bbx-api-call'' 5000)) st1;
       q = getTabs_start (snd c2);
       answer = DArray [[''id'' \<mapsto> JStr ''a'', ''index'' \<mapsto> JInt 7],
                        [''id'' \<mapsto> JStr ''b'', ''index'' \<mapsto> JNull],
                        [''id'' \<mapsto> JStr ''c'']];
       st2 = handleMessage \<lparr>fromFrame = True, origin = ''https://bbx.example'',
               ptype = Some ''getTabs'', prequestId = Some (0, 2), perror = [],
               pdata = answer, pmethods = None\<rparr> (snd q);
       r = getTabs_finish (Resolved answer) st2
    in fst c1 = AwaitProbe ''getTabs'' [] (Inr (0, 1))
       \<and> settlements (0, 1) st1 = [Rejected (TimedOut ''bbx-api-call'' 5000)]
       \<and> fst c2 = LegacyCall ''getTabs'' []
       \<and> fst q = Inr (0, 2)
       \<and> settlements (0, 2) st2 = [Resolved answer]
       \<and> map (\<lambda>tab. js_get tab ''id'') (fst r) = [JStr ''a'', JStr ''b'', JStr ''c'']
       \<and> map (\<lambda>tab. js_get tab ''index'') (fst r) = [JInt 7, JNull, JInt 2]
       \<and> legacyTabsCache (snd r) = fst r
       \<and> \<not> indexed (legacyTabsCache (snd r)))"
proof -
  let ?ready = "\<lparr>fromFrame = True, origin = ''https://bbx.example'',
           ptype = Some ''tab-api-ready'', prequestId = None, perror = [],
           pdata = DPrim JUndefined, pmethods = None\<rparr>"
  let ?ts = "[[''id'' \<mapsto> JStr ''a'', ''index'' \<mapsto> JInt 7],
              [''id'' \<mapsto> JStr ''b'', ''index'' \<mapsto> JNull],
              [''id'' \<mapsto> JStr ''c'']]"
  let ?resp = "\<lparr>fromFrame = True, origin = ''https://bbx.example'',
               ptype = Some ''getTabs'', prequestId = Some (0, 2), perror = [],
               pdata = DArray ?ts, pmethods = None\<rparr>"
  let ?probe = "Request ''bbx-api-call'' (0, 1) (ApiCall ''getTabCount'' [])"
  let ?out = "Rejected (TimedOut ''bbx-api-call'' 5000)"
  let ?T1 = "RequestTimeout (0, 1) ''bbx-api-call'' 5000"
  let ?T2 = "RequestTimeout (0, 2) ''getTabs'' 30000"
  let ?S0 = "constructed\<lparr>contentWindow := True, iframeSrc := ''https://bbx.example/login'',
      outbox := [Init], isReady := True, events := [ReadyEvent ''tab-api-ready'']\<rparr>"
  let ?S1 = "?S0\<lparr>requestSeq := 1, timers := [?T1], pending := [((0, 1), ?T1)],
      outbox := [Init, ?probe]\<rparr>"
  let ?S2 = "?S1\<lparr>timers := [], pending := [], settled := [((0, 1), ?out)]\<rparr>"
  let ?S3 = "?S2\<lparr>transportMode := Legacy\<rparr>"
  let ?S4 = "?S3\<lparr>requestSeq := 2, timers := [?T2], pending := [((0, 2), ?T2)],
      outbox := [Init, ?probe, Request ''getTabs'' (0, 2) NoData]\<rparr>"
  let ?S5 = "?S4\<lparr>timers := [], pending := [],
      settled := [((0, 1), ?out), ((0, 2), Resolved (DArray ?ts))]\<rparr>"
  have e0: "run constructed [Attach (Some ''https://bbx.example/login''), Load, Receive ?ready] =
      ?S0"
    by (simp add: run_def constructed_def connectedCallback_def handleLoad_def
        startInitPing_def stopInitPing_def postRaw_def handleMessage_def
        validateIncomingOrigin_def allowedOrigin_def settle_def setReady_def dispatchEvent_def
        Let_def)
  have c0: "callApi_start (DPrim (JStr ''getTabs'')) [] ?S0 = (AwaitReady ''getTabs'' [], ?S0)"
    by (simp add: callApi_start_def js_trim_def js_space_def)
  have c1: "callApi_ready ''getTabs'' [] ?S0 = (AwaitProbe ''getTabs'' [] (Inr (0, 1)), ?S1)"
    by (simp add: callApi_ready_def resolveTransport_start_def request_def requestTimeoutMs_def
        constructed_def js_trim_def js_space_def Let_def)
  have f1: "fire_timer ?T1 ?S1 = ?S2"
    by (simp add: fire_timer_def settle_promise_def pending_delete_def constructed_def Let_def)
  have c2: "callApi_probed ''getTabs'' [] ?out ?S2 = (LegacyCall ''getTabs'' [], ?S3)"
    by (simp add: callApi_probed_def callApi_dispatch_def resolveTransport_finish_def Let_def)
  have q: "getTabs_start ?S3 = (Inr (0, 2), ?S4)"
    by (simp add: getTabs_start_def request_def requestTimeoutMs_def constructed_def Let_def)
  have h: "handleMessage ?resp ?S4 = ?S5"
    by (simp add: handleMessage_def validateIncomingOrigin_def allowedOrigin_def settle_def
        settle_promise_def pending_delete_def clearTimeout_def constructed_def)
  have r: "getTabs_finish (Resolved (DArray ?ts)) ?S5 =
      (stamp ?ts, ?S5\<lparr>legacyTabsCache := stamp ?ts\<rparr>)"
    by (rule getTabs_finish_array)
  have st: "stamp ?ts =
      [[''index'' \<mapsto> JInt 0] ++ [''id'' \<mapsto> JStr ''a'', ''index'' \<mapsto> JInt 7],
       [''index'' \<mapsto> JInt 1] ++ [''id'' \<mapsto> JStr ''b'', ''index'' \<mapsto> JNull],
       [''index'' \<mapsto> JInt 2] ++ [''id'' \<mapsto> JStr ''c'']]"
    by (simp add: stamp_def enumerate_eq_zip upt_rec)
  have s1: "settlements (0, 1) ?S2 = [?out]" by (simp add: settlements_def)
  have s2: "settlements (0, 2) ?S5 = [Resolved (DArray ?ts)]" by (simp add: settlements_def)
  have ids: "map (\<lambda>tab. js_get tab ''id'') (stamp ?ts) = [JStr ''a'', JStr ''b'', JStr ''c'']"
    unfolding st by (simp add: js_get_def map_add_def)
  have idx: "map (\<lambda>tab. js_get tab ''index'') (stamp ?ts) = [JInt 7, JNull, JInt 2]"
    unfolding st by (simp add: js_get_def map_add_def)
  have ni: "\<not> indexed (stamp ?ts)"
    unfolding st by (simp add: indexed_def enumerate_eq_zip upt_rec js_get_def map_add_def)
  show ?thesis
    unfolding Let_def e0 c0 snd_conv c1 f1 c2 q h r fst_conv
    using s1 s2 ids idx ni by simp
qed

lemma postRaw_available:
  "contentWindow st \<Longrightarrow> postRaw msg st = st\<lparr>outbox := outbox st @ [msg]\<rparr>"
  by (simp add: postRaw_def)

lemma closeAllTabs_loop_unavailable:
  "\<not> contentWindow st \<Longrightarrow> closeAllTabs_loop tabs keep i st = st"
proof (induction tabs keep i st rule: closeAllTabs_loop.induct)
  case (1 tabs keep i st)
  then show ?case
    by (subst closeAllTabs_loop.simps) (simp add: Let_def postRaw_def)
qed

lemma closeAllTabs_loop_posts:
  assumes "contentWindow st" and "0 \<le> keep" and "i < int (length tabs)" and "keep - 1 \<le> i"
  shows "closeAllTabs_loop tabs keep i st =
     st\<lparr>outbox := outbox st @
          map (TabCommand ''closeTab'')
            (filter truthy (map (\<lambda>j. tab_ident (tabs ! j)) (rev [nat keep..<nat (i + 1)])))\<rparr>"
  using assms
proof (induction tabs keep i st rule: closeAllTabs_loop.induct)
  case (1 tabs keep i st)
  show ?case
  proof (cases "i \<ge> keep")
    case False
    with "1.prems" have "nat (i + 1) = nat keep" by simp
    with False show ?thesis
      by (subst closeAllTabs_loop.simps) simp
  next
    case True
    with "1.prems" have i0: "0 \<le> i" and lt: "nat i < length tabs" by simp_all
    then have at: "tab_at tabs i = tabs ! nat i"
      using "1.prems" by (simp add: tab_at_def)
    have up: "[nat keep..<nat (i + 1)] = [nat keep..<nat i] @ [nat i]"
    proof -
      from i0 have "nat (i + 1) = Suc (nat i)" by simp
      moreover from True "1.prems" have "nat keep \<le> nat i" by simp
      ultimately show ?thesis by simp
    qed
    show ?thesis
    proof (cases "truthy (tab_ident (tabs ! nat i))")
      case tr: True
      let ?st' = "postRaw (TabCommand ''closeTab'' (tab_ident (tabs ! nat i))) st"
      have w: "contentWindow ?st'" using "1.prems" by (simp add: postRaw_def)
      have ih: "closeAllTabs_loop tabs keep (i - 1) ?st' =
          ?st'\<lparr>outbox := outbox ?st' @
            map (TabCommand ''closeTab'')
              (filter truthy (map (\<lambda>j. tab_ident (tabs ! j))
                (rev [nat keep..<nat (i - 1 + 1)])))\<rparr>"
        using "1.IH"(2) [OF True refl] "1.prems" True tr w by (simp add: at)
      show ?thesis
        using True at tr ih "1.prems"(1)
        by (subst closeAllTabs_loop.simps) (simp add: Let_def up postRaw_available)
    next
      case fl: False
      have ih: "closeAllTabs_loop tabs keep (i - 1) st =
          st\<lparr>outbox := outbox st @
            map (TabCommand ''closeTab'')
              (filter truthy (map (\<lambda>j. tab_ident (tabs ! j))
                (rev [nat keep..<nat (i - 1 + 1)])))\<rparr>"
        using "1.IH"(1) [OF True refl] "1.prems" True fl by (simp add: at)
      show ?thesis
        using True at fl ih
        by (subst closeAllTabs_loop.simps) (simp add: Let_def up)
    qed
  qed
qed

lemma filter_truthy_all:
  "\<forall>tab \<in> set tabs. truthy (tab_ident tab) \<Longrightarrow> \<forall>j \<in> set js. j < length tabs \<Longrightarrow>
   filter truthy (map (\<lambda>j. tab_ident (tabs ! j)) js) = map (\<lambda>j. tab_ident (tabs ! j)) js"
  by (induction js) simp_all

text \<open>
  C4, as the claim states it, fails: a detached element has no window to post to. The
  peer answers the \<open>getTabs\<close> query of an attached element with five tabs, which sets
  the tab cache; the element is detached. Then \<open>closeAllTabs\<close> with \<open>keep: 2\<close> finds
  its query rejected at once, obtains the five cached tabs, each with an identifier, and
  returns 2 without one close message posted.
\<close>

theorem closeAllTabs_detached_counterexample:
  "(let five = [[''id'' \<mapsto> JStr ''t0''], [''id'' \<mapsto> JStr ''t1''], [''id'' \<mapsto> JStr ''t2''],
                [''id'' \<mapsto> JStr ''t3''], [''id'' \<mapsto> JStr ''t4'']];
       st0 = connectedCallback (Some ''https://bbx.example/login'') constructed;
       q1 = getTabs_start st0;
       st1 = handleMessage \<lparr>fromFrame = True, origin = ''https://bbx.example'',
               ptype = Some ''getTabs'', prequestId = Some (0, 1), perror = [],
               pdata = DArray five, pmethods = None\<rparr> (snd q1);
       g1 = getTabs_finish (Resolved (DArray five)) st1;
       st2 = disconnectedCallback (snd g1);
       q2 = closeAllTabs_start [DObject [''keep'' \<mapsto> JInt 2]] st2;
       g2 = getTabs_finish (Rejected IframeNotReady) (snd q2);
       c = closeAllTabs_resume [DObject [''keep'' \<mapsto> JInt 2]] (fst g2) (snd g2)
    in fst q1 = Inr (0, 1)
       \<and> settlements (0, 1) st1 = [Resolved (DArray five)]
       \<and> fst q2 = Inl IframeNotReady
       \<and> length (fst g2) = 5
       \<and> map tab_ident (fst g2) = [JStr ''t0'', JStr ''t1'', JStr ''t2'', JStr ''t3'', JStr ''t4'']
       \<and> fst c = 2
       \<and> filter is_close (outbox (snd c)) = [])"
proof -
  let ?five = "[[''id'' \<mapsto> JStr ''t0''], [''id'' \<mapsto> JStr ''t1''], [''id'' \<mapsto> JStr ''t2''],
                [''id'' \<mapsto> JStr ''t3''], [''id'' \<mapsto> JStr ''t4'']]"
  let ?resp = "\<lparr>fromFrame = True, origin = ''https://bbx.example'',
               ptype = Some ''getTabs'', prequestId = Some (0, 1), perror = [],
               pdata = DArray ?five, pmethods = None\<rparr>"
  let ?args = "[DObject [''keep'' \<mapsto> JInt 2]]"
  let ?T = "RequestTimeout (0, 1) ''getTabs'' 30000"
  let ?S0 = "constructed\<lparr>contentWindow := True, iframeSrc := ''https://bbx.example/login''\<rparr>"
  let ?S1 = "?S0\<lparr>requestSeq := 1, timers := [?T], pending := [((0, 1), ?T)],
      outbox := [Request ''getTabs'' (0, 1) NoData]\<rparr>"
  let ?S2 = "?S1\<lparr>timers := [], pending := [], settled := [((0, 1), Resolved (DArray ?five))]\<rparr>"
  let ?S3 = "?S2\<lparr>legacyTabsCache := stamp ?five\<rparr>"
  let ?S4 = "?S3\<lparr>contentWindow := False\<rparr>"
  let ?S5 = "?S4\<lparr>legacyTabsCache := stamp (stamp ?five)\<rparr>"
  have e0: "connectedCallback (Some ''https://bbx.example/login'') constructed = ?S0"
    by (simp add: connectedCallback_def)
  have q1: "getTabs_start ?S0 = (Inr (0, 1), ?S1)"
    by (simp add: getTabs_start_def request_def requestTimeoutMs_def constructed_def Let_def)
  have h: "handleMessage ?resp ?S1 = ?S2"
    by (simp add: handleMessage_def validateIncomingOrigin_def allowedOrigin_def settle_def
        settle_promise_def pending_delete_def clearTimeout_def constructed_def)
  have g1: "getTabs_finish (Resolved (DArray ?five)) ?S2 = (stamp ?five, ?S3)"
    by (rule getTabs_finish_array)
  have d: "disconnectedCallback ?S3 = ?S4"
    by (simp add: disconnectedCallback_def rejectPending_eq stopInitPing_def constructed_def)
  have w4: "\<not> contentWindow ?S4" by simp
  have q2: "closeAllTabs_start ?args ?S4 = (Inl IframeNotReady, ?S4)"
    unfolding closeAllTabs_start_def by (rule getTabs_start_unavailable [OF w4])
  have g2: "getTabs_finish (Rejected IframeNotReady) ?S4 = (stamp (stamp ?five), ?S5)"
    by (simp add: getTabs_finish_rejected)
  have w5: "\<not> contentWindow ?S5" by simp
  have n: "length (stamp (stamp ?five)) = 5" by (simp add: length_stamp)
  have c: "closeAllTabs_resume ?args (stamp (stamp ?five)) ?S5 = (2, ?S5)"
    by (simp add: closeAllTabs_resume_def closeAllTabs_loop_unavailable n arg_def
        data_get_def js_get_def)
  have ids: "map tab_ident (stamp (stamp ?five)) =
      [JStr ''t0'', JStr ''t1'', JStr ''t2'', JStr ''t3'', JStr ''t4'']"
    by (simp add: stamp_def enumerate_eq_zip upt_rec tab_ident_def js_or_def js_get_def
        map_add_def)
  have s: "settlements (0, 1) ?S2 = [Resolved (DArray ?five)]" by (simp add: settlements_def)
  have o: "filter is_close (outbox ?S5) = []" by simp
  show ?thesis
    unfolding Let_def e0 q1 snd_conv h g1 d q2 g2 fst_conv c
    using s n ids o by simp
qed

text \<open>
  C4, amended. \<open>closeAllTabs\<close> is called with \<open>keep: k\<close>, \<open>k\<close> an integer not below
  0, and resumes with the list of \<open>n\<close> tabs that \<open>getTabs\<close> returned, in whatever state
  the element then is. If \<open>n \<le> k\<close> it returns \<open>n\<close> and changes nothing. Otherwise it
  returns \<open>k\<close>; when the frame then has no window it posts nothing; when the frame has a
  window it posts one close message for each tab at the positions \<open>n - 1\<close> down to
  \<open>k\<close>, in this order, that carries an identifier, and nothing else; so when every tab
  carries an identifier these are exactly \<open>n - k\<close> close messages.
\<close>

theorem closeAllTabs_closes_beyond_keep:
  assumes "0 \<le> k" and "data_get (arg args 0) ''keep'' = JInt k"
  shows "(int (length tabs) \<le> k \<longrightarrow>
            closeAllTabs_resume args tabs st = (int (length tabs), st))
    \<and> (k < int (length tabs) \<longrightarrow>
          fst (closeAllTabs_resume args tabs st) = k
          \<and> (\<not> contentWindow st \<longrightarrow> snd (closeAllTabs_resume args tabs st) = st)
          \<and> (contentWindow st \<longrightarrow>
                snd (closeAllTabs_resume args tabs st) =
                  st\<lparr>outbox := outbox st @
                    map (TabCommand ''closeTab'')
                      (filter truthy (map (\<lambda>i. tab_ident (tabs ! i))
                        (rev [nat k..<length tabs])))\<rparr>)
          \<and> (contentWindow st \<and> (\<forall>tab \<in> set tabs. truthy (tab_ident tab)) \<longrightarrow>
                outbox (snd (closeAllTabs_resume args tabs st)) =
                  outbox st @
                  map (\<lambda>i. TabCommand ''closeTab'' (tab_ident (tabs ! i)))
                    (rev [nat k..<length tabs])
                \<and> length (filter is_close (outbox (snd (closeAllTabs_resume args tabs st)))) =
                    length (filter is_close (outbox st)) + (length tabs - nat k)))"
proof -
  have keep: "(case data_get (arg args 0) ''keep'' of JInt k \<Rightarrow> max 0 k | _ \<Rightarrow> 0) = k"
    using assms by simp
  have few: "int (length tabs) \<le> k \<longrightarrow>
      closeAllTabs_resume args tabs st = (int (length tabs), st)"
    by (simp add: closeAllTabs_resume_def keep)
  have res: "closeAllTabs_resume args tabs st =
      (k, closeAllTabs_loop tabs k (int (length tabs) - 1) st)" if "k < int (length tabs)"
    using that assms(1) by (simp add: closeAllTabs_resume_def keep)
  have absent: "snd (closeAllTabs_resume args tabs st) = st"
    if "k < int (length tabs)" and "\<not> contentWindow st"
    using that by (simp add: res closeAllTabs_loop_unavailable)
  have present: "snd (closeAllTabs_resume args tabs st) =
      st\<lparr>outbox := outbox st @
        map (TabCommand ''closeTab'')
          (filter truthy (map (\<lambda>i. tab_ident (tabs ! i)) (rev [nat k..<length tabs])))\<rparr>"
    if more: "k < int (length tabs)" and w: "contentWindow st"
  proof -
    from more have n: "nat (int (length tabs) - 1 + 1) = length tabs" by simp
    from closeAllTabs_loop_posts [OF w assms(1), of "int (length tabs) - 1" tabs] more n
    show ?thesis by (simp add: res [OF more])
  qed
  have ids: "outbox (snd (closeAllTabs_resume args tabs st)) =
        outbox st @
        map (\<lambda>i. TabCommand ''closeTab'' (tab_ident (tabs ! i))) (rev [nat k..<length tabs])
      \<and> length (filter is_close (outbox (snd (closeAllTabs_resume args tabs st)))) =
          length (filter is_close (outbox st)) + (length tabs - nat k)"
    if more: "k < int (length tabs)" and w: "contentWindow st"
      and all: "\<forall>tab \<in> set tabs. truthy (tab_ident tab)"
  proof -
    have "\<forall>j \<in> set (rev [nat k..<length tabs]). j < length tabs" by simp
    from filter_truthy_all [OF all this]
    have f: "filter truthy (map (\<lambda>i. tab_ident (tabs ! i)) (rev [nat k..<length tabs])) =
        map (\<lambda>i. tab_ident (tabs ! i)) (rev [nat k..<length tabs])" .
    have all_close: "filter is_close
        (map (\<lambda>j. TabCommand ''closeTab'' (tab_ident (tabs ! j))) (rev [nat k..<length tabs])) =
        map (\<lambda>j. TabCommand ''closeTab'' (tab_ident (tabs ! j))) (rev [nat k..<length tabs])"
      by (simp add: filter_map comp_def)
    have o: "outbox (snd (closeAllTabs_resume args tabs st)) =
        outbox st @
        map (\<lambda>i. TabCommand ''closeTab'' (tab_ident (tabs ! i))) (rev [nat k..<length tabs])"
      unfolding present [OF more w] f by (simp add: comp_def)
    show ?thesis unfolding o by (simp add: all_close)
  qed
  from res have k: "k < int (length tabs) \<longrightarrow> fst (closeAllTabs_resume args tabs st) = k"
    by simp
  from few k absent present ids show ?thesis by blast
qed

theorem closeAllTabs_closes_beyond_keep_witness:
  "(let five = [[''id'' \<mapsto> JStr ''t0''], [''id'' \<mapsto> JStr ''t1''], [''id'' \<mapsto> JStr ''t2''],
                [''id'' \<mapsto> JStr ''t3''], [''targetId'' \<mapsto> JStr ''t4'']];
       st0 = connectedCallback (Some ''https://bbx.example/login'') constructed;
       q = closeAllTabs_start [DObject [''keep'' \<mapsto> JInt 2]] st0;
       st1 = handleMessage \<lparr>fromFrame = True, origin = ''https://bbx.example'',
               ptype = Some ''getTabs'', prequestId = Some (0, 1), perror = [],
               pdata = DArray five, pmethods = None\<rparr> (snd q);
       g = getTabs_finish (Resolved (DArray five)) st1;
       c = closeAllTabs_resume [DObject [''keep'' \<mapsto> JInt 2]] (fst g) (snd g)
    in fst q = Inr (0, 1)
       \<and> length (fst g) = 5
       \<and> fst c = 2
       \<and> filter is_close (outbox (snd c)) =
           [TabCommand ''closeTab'' (JStr ''t4''), TabCommand ''closeTab'' (JStr ''t3''),
            TabCommand ''closeTab'' (JStr ''t2'')]
       \<and> closeAllTabs_resume [DObject [''keep'' \<mapsto> JInt 5]] (fst g) (snd g) = (5, snd g)
       \<and> closeAllTabs_resume [DObject [''keep'' \<mapsto> JInt 2]] (fst g) (disconnectedCallback (snd g)) =
           (2, disconnectedCallback (snd g)))"
proof -
  let ?five = "[[''id'' \<mapsto> JStr ''t0''], [''id'' \<mapsto> JStr ''t1''], [''id'' \<mapsto> JStr ''t2''],
                [''id'' \<mapsto> JStr ''t3''], [''targetId'' \<mapsto> JStr ''t4'']]"
  let ?resp = "\<lparr>fromFrame = True, origin = ''https://bbx.example'',
               ptype = Some ''getTabs'', prequestId = Some (0, 1), perror = [],
               pdata = DArray ?five, pmethods = None\<rparr>"
  let ?args = "[DObject [''keep'' \<mapsto> JInt 2]]"
  let ?args5 = "[DObject [''keep'' \<mapsto> JInt 5]]"
  let ?T = "RequestTimeout (0, 1) ''getTabs'' 30000"
  let ?S0 = "constructed\<lparr>contentWindow := True, iframeSrc := ''https://bbx.example/login''\<rparr>"
  let ?S1 = "?S0\<lparr>requestSeq := 1, timers := [?T], pending := [((0, 1), ?T)],
      outbox := [Request ''getTabs'' (0, 1) NoData]\<rparr>"
  let ?S2 = "?S1\<lparr>timers := [], pending := [], settled := [((0, 1), Resolved (DArray ?five))]\<rparr>"
  let ?S3 = "?S2\<lparr>legacyTabsCache := stamp ?five\<rparr>"
  have e0: "connectedCallback (Some ''https://bbx.example/login'') constructed = ?S0"
    by (simp add: connectedCallback_def)
  have q: "closeAllTabs_start ?args ?S0 = (Inr (0, 1), ?S1)"
    by (simp add: closeAllTabs_start_def getTabs_start_def request_def requestTimeoutMs_def
        constructed_def Let_def)
  have h: "handleMessage ?resp ?S1 = ?S2"
    by (simp add: handleMessage_def validateIncomingOrigin_def allowedOrigin_def settle_def
        settle_promise_def pending_delete_def clearTimeout_def constructed_def)
  have g: "getTabs_finish (Resolved (DArray ?five)) ?S2 = (stamp ?five, ?S3)"
    by (rule getTabs_finish_array)
  have s5: "stamp ?five =
      [[''index'' \<mapsto> JInt 0] ++ [''id'' \<mapsto> JStr ''t0''],
       [''index'' \<mapsto> JInt 1] ++ [''id'' \<mapsto> JStr ''t1''],
       [''index'' \<mapsto> JInt 2] ++ [''id'' \<mapsto> JStr ''t2''],
       [''index'' \<mapsto> JInt 3] ++ [''id'' \<mapsto> JStr ''t3''],
       [''index'' \<mapsto> JInt 4] ++ [''targetId'' \<mapsto> JStr ''t4'']]"
    by (simp add: stamp_def enumerate_eq_zip upt_rec)
  have n: "length (stamp ?five) = 5" by (simp add: length_stamp)
  have w: "contentWindow ?S3" by simp
  have nw: "\<not> contentWindow (disconnectedCallback ?S3)"
    by (simp add: disconnectedCallback_def rejectPending_eq stopInitPing_def)
  have k2: "data_get (arg ?args 0) ''keep'' = JInt 2"
    and k5: "data_get (arg ?args5 0) ''keep'' = JInt 5"
    by (simp_all add: arg_def data_get_def js_get_def)
  have ids: "\<forall>tab \<in> set (stamp ?five). truthy (tab_ident tab)"
    unfolding s5 by (simp add: tab_ident_def js_or_def js_get_def)
  have more: "2 < int (length (stamp ?five))" and few: "int (length (stamp ?five)) \<le> 5"
    by (simp_all add: n)
  have z2: "(0::int) \<le> 2" and z5: "(0::int) \<le> 5" by simp_all
  have up: "rev [2..<5] = [4, 3, 2 :: nat]" by (simp add: upt_rec)
  note main = closeAllTabs_closes_beyond_keep
  from main [OF z2 k2, of "stamp ?five" ?S3] more w ids
  have r: "fst (closeAllTabs_resume ?args (stamp ?five) ?S3) = 2"
    and m: "outbox (snd (closeAllTabs_resume ?args (stamp ?five) ?S3)) =
        outbox ?S3 @
        map (\<lambda>i. TabCommand ''closeTab'' (tab_ident (stamp ?five ! i)))
          (rev [nat 2..<length (stamp ?five)])"
    by blast+
  have cl: "filter is_close (outbox (snd (closeAllTabs_resume ?args (stamp ?five) ?S3))) =
      [TabCommand ''closeTab'' (JStr ''t4''), TabCommand ''closeTab'' (JStr ''t3''),
       TabCommand ''closeTab'' (JStr ''t2'')]"
    unfolding m unfolding s5 by (simp add: up tab_ident_def js_or_def js_get_def)
  from main [OF z5 k5, of "stamp ?five" ?S3] few
  have a5: "closeAllTabs_resume ?args5 (stamp ?five) ?S3 = (5, ?S3)" by (simp add: n)
  from main [OF z2 k2, of "stamp ?five" "disconnectedCallback ?S3"] more nw
  have "fst (closeAllTabs_resume ?args (stamp ?five) (disconnectedCallback ?S3)) = 2
      \<and> snd (closeAllTabs_resume ?args (stamp ?five) (disconnectedCallback ?S3)) =
          disconnectedCallback ?S3"
    by blast
  then have ad: "closeAllTabs_resume ?args (stamp ?five) (disconnectedCallback ?S3) =
      (2, disconnectedCallback ?S3)"
    by (simp add: prod_eq_iff)
  show ?thesis
    unfolding Let_def e0 q snd_conv h g fst_conv
    using n r cl a5 ad by simp
qed

lemma resolveTabId_start_not_string:
  assumes "\<forall>str. indexArg = DPrim (JStr str) \<longrightarrow> js_trim str = []"
  shows "resolveTabId_start indexArg st = (Inr (fst (getTabs_start st)), snd (getTabs_start st))"
proof -
  have "(case indexArg of
              DPrim (JStr str) \<Rightarrow> if length (js_trim str) > 0 then Some (js_trim str) else None
            | _ \<Rightarrow> None) = None"
    using assms by (simp split: jsdata.splits jsval.splits)
  then show ?thesis by (simp add: resolveTabId_start_def split: prod.splits)
qed

lemma legacy_resume_no_tab:
  assumes "\<not> truthy tabId"
  shows "legacy_resume op args originalError tabId st =
     (Inl (fail_message
        (case op of
           CloseTab \<Rightarrow> ''Legacy closeTab failed: no target tab''
         | SwitchToTab \<Rightarrow> ''Legacy switchToTab failed: no target tab''
         | NavigateTo \<Rightarrow> ''Legacy navigateTo failed: no active tab''
         | NavigateTab \<Rightarrow> ''Legacy navigateTab failed: no target tab''
         | SubmitOmnibox \<Rightarrow> ''Legacy navigateTo failed: no active tab''
         | Reload \<Rightarrow> ''Legacy reload failed: no active tab''
         | GoBack \<Rightarrow> ''Legacy goBack failed: no active tab''
         | GoForward \<Rightarrow> ''Legacy goForward failed: no active tab''
         | Stop \<Rightarrow> ''Legacy stop failed: no active tab''
         | Evaluate \<Rightarrow> ''Legacy evaluate failed: no active tab'')
        originalError), st)"
  using assms by (cases op) (simp_all add: navigateTo_resume_def Let_def)

text \<open>
  C9, as the claim states it, fails: without a window the resolver asks the peer nothing.
  On an element that was never attached, \<open>callApi('closeTab')\<close> waits for readiness in
  vain, finds its probe rejected at once and takes the legacy path. There the resolver,
  given no index, finds the query of \<open>getTabs\<close> rejected at once and the tab cache
  empty, and then its request for the active tab rejected at once as well: no message has
  been posted, the identifier is null and \<open>closeTab\<close> throws.
\<close>

theorem resolveTabId_no_window_counterexample:
  "(let c0 = callApi (DPrim (JStr ''closeTab'')) [] (Rejected IframeNotReady) constructed;
       r0 = resolveTabId_start (legacy_target CloseTab []) (snd c0);
       g = getTabs_finish (Rejected IframeNotReady) (snd r0);
       r1 = resolveTabId_tabs (legacy_target CloseTab []) (fst g) (snd g);
       tabId = resolveTabId_active (Rejected IframeNotReady);
       c = legacy_resume CloseTab [] None tabId (snd r1)
    in fst c0 = LegacyCall ''closeTab'' []
       \<and> fst r0 = Inr (Inl IframeNotReady)
       \<and> fst g = []
       \<and> fst r1 = Inr (Inl IframeNotReady)
       \<and> outbox (snd r1) = []
       \<and> tabId = JNull
       \<and> fst c = Inl ''Legacy closeTab failed: no target tab''
       \<and> outbox (snd c) = [])"
proof -
  let ?S0 = "constructed\<lparr>isReady := True, events := [ReadyTimeoutEvent 8000],
      transportMode := Legacy\<rparr>"
  have c0: "callApi (DPrim (JStr ''closeTab'')) [] (Rejected IframeNotReady) constructed =
      (LegacyCall ''closeTab'' [], ?S0)"
    by (simp add: callApi_def callApi_start_def callApi_ready_def callApi_probed_def
        callApi_dispatch_def ensureReadyTimeout_def resolveTransport_start_def
        resolveTransport_finish_def request_def setReady_def stopInitPing_def
        dispatchEvent_def requestTimeoutMs_def constructed_def js_trim_def js_space_def
        Let_def)
  have w: "\<not> contentWindow ?S0" by (simp add: constructed_def)
  have t: "legacy_target CloseTab [] = DPrim JUndefined" by (simp add: arg_def)
  have r0: "resolveTabId_start (DPrim JUndefined) ?S0 = (Inr (Inl IframeNotReady), ?S0)"
    by (simp add: resolveTabId_start_def getTabs_start_unavailable [OF w])
  have g: "getTabs_finish (Rejected IframeNotReady) ?S0 = ([], ?S0)"
    by (simp add: getTabs_finish_rejected stamp_def constructed_def)
  have r1: "resolveTabId_tabs (DPrim JUndefined) [] ?S0 = (Inr (Inl IframeNotReady), ?S0)"
    by (simp add: resolveTabId_tabs_def request_unavailable [OF w])
  have a: "resolveTabId_active (Rejected IframeNotReady) = JNull"
    by (simp add: resolveTabId_active_def data_get_def js_or_def)
  have c: "legacy_resume CloseTab [] None JNull ?S0 =
      (Inl ''Legacy closeTab failed: no target tab'', ?S0)"
    by (simp add: fail_message_def)
  have o: "outbox ?S0 = []" by (simp add: constructed_def)
  show ?thesis
    unfolding Let_def c0 snd_conv t r0 g fst_conv r1 a c
    using o by simp
qed

text \<open>
  C9, amended. (1) Given an integer index \<open>i\<close> and the non-empty list of \<open>n\<close> tabs
  that \<open>getTabs\<close> returned, the resolver returns the identifier (\<open>id\<close>, else
  \<open>targetId\<close>, else null) of the tab at position \<open>clamp(n + i, 0, n - 1)\<close> when
  \<open>i < 0\<close> and \<open>clamp(i, 0, n - 1)\<close> otherwise, and posts nothing. (2) For every
  argument that is not a non-blank string (no index among them) the resolver first
  obtains the list from \<open>getTabs\<close>. (3) When that list is empty and the frame has a
  window, it posts the request \<open>getActiveTab\<close> to the peer and returns the identifier
  of the tab the peer answers with, null when the request fails or the answer has none;
  when the frame has no window it posts nothing, and the identifier is null. (4) When the
  resolver has no identifier, each of the handlers \<open>closeTab\<close>, \<open>switchToTab\<close>,
  \<open>navigateTo\<close>, \<open>navigateTab\<close>, \<open>submitOmnibox\<close>, \<open>reload\<close>, \<open>goBack\<close>,
  \<open>goForward\<close>, \<open>stop\<close> and \<open>evaluate\<close> posts nothing and throws an error that
  names what failed, followed by the message of the original error in parentheses when
  the handler was given one.
\<close>

theorem resolveTabId_sources:
  "(\<forall>i. tabs \<noteq> [] \<longrightarrow>
      resolveTabId_tabs (DPrim (JInt i)) tabs st =
        (Inl (js_or (tab_ident (tabs !
             nat (max 0 (min (int (length tabs) - 1)
                   (if i < 0 then int (length tabs) + i else i)))))
           JNull),
         st))
   \<and> (\<forall>indexArg. (\<forall>str. indexArg = DPrim (JStr str) \<longrightarrow> js_trim str = []) \<longrightarrow>
        resolveTabId_start indexArg st = (Inr (fst (getTabs_start st)), snd (getTabs_start st)))
   \<and> (\<forall>indexArg. contentWindow st \<longrightarrow>
        fst (resolveTabId_tabs indexArg [] st) = Inr (Inr (clock st, requestSeq st + 1))
        \<and> outbox (snd (resolveTabId_tabs indexArg [] st)) =
            outbox st @ [Request ''getActiveTab'' (clock st, requestSeq st + 1) NoData])
   \<and> (\<forall>indexArg. \<not> contentWindow st \<longrightarrow>
        resolveTabId_tabs indexArg [] st = (Inr (Inl IframeNotReady), st))
   \<and> (\<forall>d. resolveTabId_active (Resolved d) =
        js_or (js_or (data_get d ''id'') (data_get d ''targetId'')) JNull)
   \<and> (\<forall>err. resolveTabId_active (Rejected err) = JNull)
   \<and> (\<forall>op args originalError tabId. \<not> truthy tabId \<longrightarrow>
        legacy_resume op args originalError tabId st =
          (Inl ((case op of
                   CloseTab \<Rightarrow> ''Legacy closeTab failed: no target tab''
                 | SwitchToTab \<Rightarrow> ''Legacy switchToTab failed: no target tab''
                 | NavigateTo \<Rightarrow> ''Legacy navigateTo failed: no active tab''
                 | NavigateTab \<Rightarrow> ''Legacy navigateTab failed: no target tab''
                 | SubmitOmnibox \<Rightarrow> ''Legacy navigateTo failed: no active tab''
                 | Reload \<Rightarrow> ''Legacy reload failed: no active tab''
                 | GoBack \<Rightarrow> ''Legacy goBack failed: no active tab''
                 | GoForward \<Rightarrow> ''Legacy goForward failed: no active tab''
                 | Stop \<Rightarrow> ''Legacy stop failed: no active tab''
                 | Evaluate \<Rightarrow> ''Legacy evaluate failed: no active tab'')
                @ (case originalError of
                     None \<Rightarrow> []
                   | Some m \<Rightarrow> if m \<noteq> [] then '' ('' @ m @ '')'' else [])),
           st))"
proof -
  have one: "\<forall>i. tabs \<noteq> [] \<longrightarrow>
      resolveTabId_tabs (DPrim (JInt i)) tabs st =
        (Inl (js_or (tab_ident (tabs !
             nat (max 0 (min (int (length tabs) - 1)
                   (if i < 0 then int (length tabs) + i else i)))))
           JNull),
         st)"
  proof (intro allI impI)
    fix i assume ne: "tabs \<noteq> []"
    define safe where "safe = max 0 (min (int (length tabs) - 1)
        (if i < 0 then int (length tabs) + i else i))"
    from ne have "0 \<le> safe \<and> safe < int (length tabs)" by (auto simp: safe_def)
    then have at: "tab_at tabs safe = tabs ! nat safe" by (simp add: tab_at_def)
    have "resolveTabId_tabs (DPrim (JInt i)) tabs st =
        (Inl (js_or (tab_ident (tab_at tabs safe)) JNull), st)"
      using ne by (simp add: resolveTabId_tabs_def Let_def safe_def)
    with at have r: "resolveTabId_tabs (DPrim (JInt i)) tabs st =
        (Inl (js_or (tab_ident (tabs ! nat safe)) JNull), st)" by simp
    show "resolveTabId_tabs (DPrim (JInt i)) tabs st =
          (Inl (js_or (tab_ident (tabs !
               nat (max 0 (min (int (length tabs) - 1)
                     (if i < 0 then int (length tabs) + i else i)))))
             JNull),
           st)"
      unfolding safe_def [symmetric] by (rule r)
  qed
  have two: "\<forall>indexArg. (\<forall>str. indexArg = DPrim (JStr str) \<longrightarrow> js_trim str = []) \<longrightarrow>
        resolveTabId_start indexArg st = (Inr (fst (getTabs_start st)), snd (getTabs_start st))"
    using resolveTabId_start_not_string by blast
  have three: "\<forall>indexArg. contentWindow st \<longrightarrow>
        fst (resolveTabId_tabs indexArg [] st) = Inr (Inr (clock st, requestSeq st + 1))
        \<and> outbox (snd (resolveTabId_tabs indexArg [] st)) =
            outbox st @ [Request ''getActiveTab'' (clock st, requestSeq st + 1) NoData]"
    by (simp add: resolveTabId_tabs_def request_available)
  have four: "\<forall>indexArg. \<not> contentWindow st \<longrightarrow>
        resolveTabId_tabs indexArg [] st = (Inr (Inl IframeNotReady), st)"
    by (simp add: resolveTabId_tabs_def request_unavailable)
  have five: "\<forall>d. resolveTabId_active (Resolved d) =
        js_or (js_or (data_get d ''id'') (data_get d ''targetId'')) JNull"
    by (simp add: resolveTabId_active_def)
  have six: "\<forall>err. resolveTabId_active (Rejected err) = JNull"
    by (simp add: resolveTabId_active_def data_get_def js_or_def)
  have seven: "\<forall>op args originalError tabId. \<not> truthy tabId \<longrightarrow>
        legacy_resume op args originalError tabId st =
          (Inl ((case op of
                   CloseTab \<Rightarrow> ''Legacy closeTab failed: no target tab''
                 | SwitchToTab \<Rightarrow> ''Legacy switchToTab failed: no target tab''
                 | NavigateTo \<Rightarrow> ''Legacy navigateTo failed: no active tab''
                 | NavigateTab \<Rightarrow> ''Legacy navigateTab failed: no target tab''
                 | SubmitOmnibox \<Rightarrow> ''Legacy navigateTo failed: no active tab''
                 | Reload \<Rightarrow> ''Legacy reload failed: no active tab''
                 | GoBack \<Rightarrow> ''Legacy goBack failed: no active tab''
                 | GoForward \<Rightarrow> ''Legacy goForward failed: no active tab''
                 | Stop \<Rightarrow> ''Legacy stop failed: no active tab''
                 | Evaluate \<Rightarrow> ''Legacy evaluate failed: no active tab'')
                @ (case originalError of
                     None \<Rightarrow> []
                   | Some m \<Rightarrow> if m \<noteq> [] then '' ('' @ m @ '')'' else [])),
           st)"
    by (simp add: legacy_resume_no_tab fail_message_def)
  from one two three four five six seven show ?thesis by (intro conjI)
qed

theorem resolveTabId_sources_witness:
  "(let three = [[''index'' \<mapsto> JInt 0, ''id'' \<mapsto> JStr ''a''],
                 [''index'' \<mapsto> JInt 1, ''id'' \<mapsto> JStr ''b''],
                 [''index'' \<mapsto> JInt 2, ''targetId'' \<mapsto> JStr ''c'']];
       st = connectedCallback (Some ''https://bbx.example/login'') constructed
    in resolveTabId_tabs (DPrim (JInt (- 1))) three st = (Inl (JStr ''c''), st)
       \<and> resolveTabId_tabs (DPrim (JInt 7)) three st = (Inl (JStr ''c''), st)
       \<and> resolveTabId_tabs (DPrim (JInt (- 9))) three st = (Inl (JStr ''a''), st)
       \<and> fst (resolveTabId_start (DPrim JNull) st) = Inr (Inr (0, 1))
       \<and> fst (resolveTabId_tabs (DPrim JNull) [] st) = Inr (Inr (0, 1))
       \<and> outbox (snd (resolveTabId_tabs (DPrim JNull) [] st)) =
           [Request ''getActiveTab'' (0, 1) NoData]
       \<and> resolveTabId_tabs (DPrim JNull) [] constructed = (Inr (Inl IframeNotReady), constructed)
       \<and> resolveTabId_active (Resolved (DObject [''targetId'' \<mapsto> JStr ''x''])) = JStr ''x''
       \<and> legacy_resume CloseTab [] (Some ''boom'') JNull st =
           (Inl ''Legacy closeTab failed: no target tab (boom)'', st)
       \<and> legacy_resume Evaluate [DPrim (JStr ''history.back()'')] None JNull st =
           (Inl ''Legacy evaluate failed: no active tab'', st))"
proof -
  let ?three = "[[''index'' \<mapsto> JInt 0, ''id'' \<mapsto> JStr ''a''],
                 [''index'' \<mapsto> JInt 1, ''id'' \<mapsto> JStr ''b''],
                 [''index'' \<mapsto> JInt 2, ''targetId'' \<mapsto> JStr ''c'']]"
  let ?st = "connectedCallback (Some ''https://bbx.example/login'') constructed"
  have w: "contentWindow ?st" and o: "outbox ?st = []" and c: "clock ?st = 0"
    and q: "requestSeq ?st = 0"
    by (simp_all add: connectedCallback_def constructed_def)
  have w0: "\<not> contentWindow constructed" by (simp add: constructed_def)
  have ne: "?three \<noteq> []" by simp
  have ns: "\<forall>str. DPrim JNull = DPrim (JStr str) \<longrightarrow> js_trim str = []" by simp
  have nt: "\<not> truthy JNull" by simp
  note main = resolveTabId_sources
  note first = main [of ?three ?st, THEN conjunct1, THEN spec, THEN mp, OF ne]
  have a: "resolveTabId_tabs (DPrim (JInt (- 1))) ?three ?st = (Inl (JStr ''c''), ?st)"
    using first [of "- 1"] by (simp add: tab_ident_def js_or_def js_get_def)
  have b: "resolveTabId_tabs (DPrim (JInt 7)) ?three ?st = (Inl (JStr ''c''), ?st)"
    using first [of 7] by (simp add: tab_ident_def js_or_def js_get_def)
  have d: "resolveTabId_tabs (DPrim (JInt (- 9))) ?three ?st = (Inl (JStr ''a''), ?st)"
    using first [of "- 9"] by (simp add: tab_ident_def js_or_def js_get_def)
  have e: "fst (resolveTabId_start (DPrim JNull) ?st) = Inr (Inr (0, 1))"
    using main [of ?three ?st, THEN conjunct2, THEN conjunct1, THEN spec, THEN mp, OF ns]
      getTabs_start_available [OF w] c q by simp
  have f: "fst (resolveTabId_tabs (DPrim JNull) [] ?st) = Inr (Inr (0, 1))
      \<and> outbox (snd (resolveTabId_tabs (DPrim JNull) [] ?st)) =
          [Request ''getActiveTab'' (0, 1) NoData]"
    using main [of ?three ?st, THEN conjunct2, THEN conjunct2, THEN conjunct1, THEN spec,
        THEN mp, OF w, of "DPrim JNull"] o c q by simp
  have g: "resolveTabId_tabs (DPrim JNull) [] constructed =
      (Inr (Inl IframeNotReady), constructed)"
    using main [of ?three constructed, THEN conjunct2, THEN conjunct2, THEN conjunct2,
        THEN conjunct1, THEN spec, THEN mp, OF w0] .
  have h: "resolveTabId_active (Resolved (DObject [''targetId'' \<mapsto> JStr ''x''])) = JStr ''x''"
    using main [of ?three ?st, THEN conjunct2, THEN conjunct2, THEN conjunct2, THEN conjunct2,
        THEN conjunct1, THEN spec, of "DObject [''targetId'' \<mapsto> JStr ''x'']"]
    by (simp add: data_get_def js_or_def js_get_def)
  note last = main [of ?three ?st, THEN conjunct2, THEN conjunct2, THEN conjunct2,
      THEN conjunct2, THEN conjunct2, THEN conjunct2, THEN spec, THEN spec, THEN spec,
      THEN spec, THEN mp, OF nt]
  have i: "legacy_resume CloseTab [] (Some ''boom'') JNull ?st =
      (Inl ''Legacy closeTab failed: no target tab (boom)'', ?st)"
    using last [of CloseTab "[]" "Some ''boom''"] by simp
  have j: "legacy_resume Evaluate [DPrim (JStr ''history.back()'')] None JNull ?st =
      (Inl ''Legacy evaluate failed: no active tab'', ?st)"
    using last [of Evaluate "[DPrim (JStr ''history.back()'')]" None] by simp
  from a b d e f g h i j show ?thesis unfolding Let_def by (intro conjI) simp_all
qed

section \<open>Claims about the transport\<close>

text \<open>
  C2, as the claim states it, fails: with the mode unknown a probe is not always sent.
  The element as constructed, not attached to a document, has no window; there the
  resolution posts nothing and the mode becomes legacy.
\<close>

theorem resolveTransport_no_probe_counterexample:
  "transportMode constructed = Unknown
   \<and> fst (resolveTransport (Resolved (DPrim (JInt 3))) constructed) = Legacy
   \<and> outbox (snd (resolveTransport (Resolved (DPrim (JInt 3))) constructed)) = []"
  by (simp add: resolveTransport_def resolveTransport_start_def resolveTransport_finish_def
      request_def constructed_def)

text \<open>
  C2, amended. The transport resolution returns a mode on every path; no error of the
  probe reaches its caller. When the mode is not unknown it returns that mode and changes
  nothing. Otherwise, when the frame has a window, it posts exactly one probe (the modern
  call of \<open>getTabCount\<close>) whose timeout lies between 100 and 5000 ms; when the frame
  has no window it posts nothing and the probe fails at once. Whenever the probe's
  promise is settled, in whatever state the element then is, the mode becomes modern if
  the promise was resolved and legacy if it was rejected (timeout, peer error,
  cancellation or missing window), and the new mode is returned.
\<close>

theorem resolveTransport_never_throws:
  "(transportMode st \<noteq> Unknown \<longrightarrow> resolveTransport s st = (transportMode st, st))
   \<and> (transportMode st = Unknown \<and> contentWindow st \<longrightarrow>
        fst (resolveTransport_start st) = Inr (Inr (clock st, requestSeq st + 1))
        \<and> outbox (snd (resolveTransport_start st)) =
            outbox st @ [Request ''bbx-api-call'' (clock st, requestSeq st + 1)
                           (ApiCall ''getTabCount'' [])]
        \<and> timers (snd (resolveTransport_start st)) =
            timers st @ [RequestTimeout (clock st, requestSeq st + 1) ''bbx-api-call''
                           (max 100 (min (requestTimeoutMs st) 5000))]
        \<and> 100 \<le> max 100 (min (requestTimeoutMs st) 5000)
        \<and> max 100 (min (requestTimeoutMs st) 5000) \<le> 5000
        \<and> fst (resolveTransport s st) = (case s of Resolved d \<Rightarrow> Modern | Rejected err \<Rightarrow> Legacy)
        \<and> transportMode (snd (resolveTransport s st)) = fst (resolveTransport s st)
        \<and> outbox (snd (resolveTransport s st)) =
            outbox st @ [Request ''bbx-api-call'' (clock st, requestSeq st + 1)
                           (ApiCall ''getTabCount'' [])])
   \<and> (transportMode st = Unknown \<and> \<not> contentWindow st \<longrightarrow>
        resolveTransport_start st = (Inr (Inl IframeNotReady), st)
        \<and> resolveTransport s st = (Legacy, st\<lparr>transportMode := Legacy\<rparr>))
   \<and> (\<forall>st'. resolveTransport_finish s st' =
        ((case s of Resolved d \<Rightarrow> Modern | Rejected err \<Rightarrow> Legacy),
         st'\<lparr>transportMode := (case s of Resolved d \<Rightarrow> Modern | Rejected err \<Rightarrow> Legacy)\<rparr>))"
proof -
  have known: "transportMode st \<noteq> Unknown \<longrightarrow> resolveTransport s st = (transportMode st, st)"
    by (simp add: resolveTransport_def resolveTransport_start_def)
  have finish: "resolveTransport_finish s st' =
        ((case s of Resolved d \<Rightarrow> Modern | Rejected err \<Rightarrow> Legacy),
         st'\<lparr>transportMode := (case s of Resolved d \<Rightarrow> Modern | Rejected err \<Rightarrow> Legacy)\<rparr>)" for st'
    by (simp add: resolveTransport_finish_def split: settlement.splits)
  have absent: "transportMode st = Unknown \<and> \<not> contentWindow st \<longrightarrow>
        resolveTransport_start st = (Inr (Inl IframeNotReady), st)
        \<and> resolveTransport s st = (Legacy, st\<lparr>transportMode := Legacy\<rparr>)"
    by (simp add: resolveTransport_def resolveTransport_start_def request_unavailable
        resolveTransport_finish_def)
  have present: "fst (resolveTransport_start st) = Inr (Inr (clock st, requestSeq st + 1))
        \<and> outbox (snd (resolveTransport_start st)) =
            outbox st @ [Request ''bbx-api-call'' (clock st, requestSeq st + 1)
                           (ApiCall ''getTabCount'' [])]
        \<and> timers (snd (resolveTransport_start st)) =
            timers st @ [RequestTimeout (clock st, requestSeq st + 1) ''bbx-api-call''
                           (max 100 (min (requestTimeoutMs st) 5000))]
        \<and> 100 \<le> max 100 (min (requestTimeoutMs st) 5000)
        \<and> max 100 (min (requestTimeoutMs st) 5000) \<le> 5000
        \<and> fst (resolveTransport s st) = (case s of Resolved d \<Rightarrow> Modern | Rejected err \<Rightarrow> Legacy)
        \<and> transportMode (snd (resolveTransport s st)) = fst (resolveTransport s st)
        \<and> outbox (snd (resolveTransport s st)) =
            outbox st @ [Request ''bbx-api-call'' (clock st, requestSeq st + 1)
                           (ApiCall ''getTabCount'' [])]"
    if u: "transportMode st = Unknown" and w: "contentWindow st"
  proof -
    have start: "resolveTransport_start st =
        (Inr (Inr (clock st, requestSeq st + 1)),
         snd (request ''bbx-api-call'' (ApiCall ''getTabCount'' [])
                (Some (min (requestTimeoutMs st) 5000)) st))"
      using u by (simp add: resolveTransport_start_def request_available [OF w])
    have whole: "resolveTransport s st =
        resolveTransport_finish s (settle_request (clock st, requestSeq st + 1) s
          (snd (request ''bbx-api-call'' (ApiCall ''getTabCount'' [])
                (Some (min (requestTimeoutMs st) 5000)) st)))"
      by (simp add: resolveTransport_def start)
    show ?thesis
      unfolding whole finish unfolding start
      by (simp add: request_available [OF w] settle_request_fields)
  qed
  from known present absent finish show ?thesis by blast
qed

theorem resolveTransport_never_throws_witness:
  "resolveTransport (Rejected (TimedOut ''bbx-api-call'' 5000))
      ((connectedCallback (Some ''https://bbx.example/login'') constructed)\<lparr>transportMode := Modern\<rparr>) =
     (Modern, (connectedCallback (Some ''https://bbx.example/login'') constructed)\<lparr>transportMode := Modern\<rparr>)
   \<and> fst (resolveTransport (Rejected (TimedOut ''bbx-api-call'' 5000))
        (connectedCallback (Some ''https://bbx.example/login'') constructed)) = Legacy
   \<and> fst (resolveTransport (Resolved (DPrim (JInt 3)))
        (connectedCallback (Some ''https://bbx.example/login'') constructed)) = Modern
   \<and> outbox (snd (resolveTransport (Resolved (DPrim (JInt 3)))
        (connectedCallback (Some ''https://bbx.example/login'') constructed))) =
       [Request ''bbx-api-call'' (0, 1) (ApiCall ''getTabCount'' [])]
   \<and> timers (snd (resolveTransport_start
        (connectedCallback (Some ''https://bbx.example/login'') constructed))) =
       [RequestTimeout (0, 1) ''bbx-api-call'' 5000]
   \<and> resolveTransport (Resolved (DPrim (JInt 3))) constructed =
       (Legacy, constructed\<lparr>transportMode := Legacy\<rparr>)"
proof -
  let ?st = "connectedCallback (Some ''https://bbx.example/login'') constructed"
  have w: "contentWindow ?st" and u: "transportMode ?st = Unknown"
    and o: "outbox ?st = []" and t: "timers ?st = []" and c: "clock ?st = 0"
    and q: "requestSeq ?st = 0" and r: "requestTimeoutMs ?st = 30000"
    by (simp_all add: connectedCallback_def constructed_def requestTimeoutMs_def)
  have m: "transportMode (?st\<lparr>transportMode := Modern\<rparr>) \<noteq> Unknown" by simp
  have u0: "transportMode constructed = Unknown" and w0: "\<not> contentWindow constructed"
    by (simp_all add: constructed_def)
  note main = resolveTransport_never_throws
  have a: "resolveTransport (Rejected (TimedOut ''bbx-api-call'' 5000)) (?st\<lparr>transportMode := Modern\<rparr>) =
      (Modern, ?st\<lparr>transportMode := Modern\<rparr>)"
    using main [of "?st\<lparr>transportMode := Modern\<rparr>" "Rejected (TimedOut ''bbx-api-call'' 5000)"] m
    by simp
  have b: "fst (resolveTransport (Rejected (TimedOut ''bbx-api-call'' 5000)) ?st) = Legacy"
    using main [of ?st "Rejected (TimedOut ''bbx-api-call'' 5000)"] w u by simp
  have d: "fst (resolveTransport (Resolved (DPrim (JInt 3))) ?st) = Modern"
    and e: "outbox (snd (resolveTransport (Resolved (DPrim (JInt 3))) ?st)) =
       [Request ''bbx-api-call'' (0, 1) (ApiCall ''getTabCount'' [])]"
    and f: "timers (snd (resolveTransport_start ?st)) = [RequestTimeout (0, 1) ''bbx-api-call'' 5000]"
    using main [of ?st "Resolved (DPrim (JInt 3))"] w u o t c q r by simp_all
  have g: "resolveTransport (Resolved (DPrim (JInt 3))) constructed =
       (Legacy, constructed\<lparr>transportMode := Legacy\<rparr>)"
    using main [of constructed "Resolved (DPrim (JInt 3))"] u0 w0 by simp
  from a b d e f g show ?thesis by (intro conjI)
qed

text \<open>
  C3 fails on the code. An attached element is ready after the legacy readiness signal,
  the mode still unknown. Two calls are made one after the other; both pass the check of
  the method and suspend at the readiness wait, then each in turn finds the mode unknown
  and enters the resolution, which posts a probe and suspends without having set the
  mode. No message can arrive between the two continuations, so two probes are posted.
  When the peer then answers the first probe and the second times out, the mode is set to
  modern and afterwards to legacy.
\<close>

theorem concurrent_calls_probe_twice:
  "(let st0 = run constructed
        [Attach (Some ''https://bbx.example/login''), Load,
         Receive \<lparr>fromFrame = True, origin = ''https://bbx.example'',
           ptype = Some ''tab-api-ready'', prequestId = None, perror = [],
           pdata = DPrim JUndefined, pmethods = None\<rparr>];
       a0 = callApi_start (DPrim (JStr ''getTabs'')) [] st0;
       b0 = callApi_start (DPrim (JStr ''getTabCount'')) [] (snd a0);
       a1 = callApi_ready ''getTabs'' [] (snd b0);
       b1 = callApi_ready ''getTabCount'' [] (snd a1);
       a2 = callApi_probed ''getTabs'' [] (Resolved (DPrim (JInt 1)))
              (settle_request (0, 1) (Resolved (DPrim (JInt 1))) (snd b1));
       b2 = callApi_probed ''getTabCount'' [] (Rejected (TimedOut ''bbx-api-call'' 5000))
              (settle_request (0, 2) (Rejected (TimedOut ''bbx-api-call'' 5000)) (snd a2))
    in isReady st0 \<and> transportMode st0 = Unknown
       \<and> fst a0 = AwaitReady ''getTabs'' [] \<and> fst b0 = AwaitReady ''getTabCount'' []
       \<and> fst a1 = AwaitProbe ''getTabs'' [] (Inr (0, 1))
       \<and> transportMode (snd a1) = Unknown
       \<and> fst b1 = AwaitProbe ''getTabCount'' [] (Inr (0, 2))
       \<and> filter is_probe (outbox (snd b1)) =
           [Request ''bbx-api-call'' (0, 1) (ApiCall ''getTabCount'' []),
            Request ''bbx-api-call'' (0, 2) (ApiCall ''getTabCount'' [])]
       \<and> transportMode (snd a2) = Modern
       \<and> transportMode (snd b2) = Legacy)"
  by (simp add: run_def constructed_def connectedCallback_def handleLoad_def startInitPing_def
      stopInitPing_def postRaw_def handleMessage_def validateIncomingOrigin_def
      allowedOrigin_def settle_def setReady_def dispatchEvent_def callApi_start_def
      callApi_ready_def callApi_probed_def callApi_dispatch_def resolveTransport_start_def
      resolveTransport_finish_def settle_request_def settle_promise_def pending_delete_def
      clearTimeout_def request_def requestTimeoutMs_def js_trim_def js_space_def Let_def)

section \<open>Claims about the unified call\<close>

lemma last_dropWhile: "dropWhile P xs \<noteq> [] \<Longrightarrow> last (dropWhile P xs) = last xs"
proof -
  assume ne: "dropWhile P xs \<noteq> []"
  have "xs = takeWhile P xs @ dropWhile P xs" by simp
  then have "last xs = last (takeWhile P xs @ dropWhile P xs)" by simp
  also have "\<dots> = last (dropWhile P xs)" using ne by (simp only: last_append if_False)
  finally show ?thesis by simp
qed

lemma js_trim_surrounding:
  "\<exists>pre post. m = pre @ js_trim m @ post
      \<and> list_all js_space pre \<and> list_all js_space post
      \<and> (js_trim m \<noteq> [] \<longrightarrow> \<not> js_space (hd (js_trim m)) \<and> \<not> js_space (last (js_trim m)))"
proof -
  define a where "a = dropWhile js_space m"
  define d where "d = dropWhile js_space (rev a)"
  have t: "js_trim m = rev d" by (simp add: js_trim_def a_def d_def)
  have "rev a = takeWhile js_space (rev a) @ d" by (simp add: d_def)
  then have "rev (rev a) = rev (takeWhile js_space (rev a) @ d)" by (rule arg_cong)
  then have a_eq: "a = rev d @ rev (takeWhile js_space (rev a))" by simp
  have "m = takeWhile js_space m @ a" by (simp add: a_def)
  with a_eq have split: "m = takeWhile js_space m @ js_trim m @ rev (takeWhile js_space (rev a))"
    by (simp add: t)
  have pre: "list_all js_space (takeWhile js_space m)"
    by (simp add: list_all_iff) (meson set_takeWhileD)
  have post: "list_all js_space (rev (takeWhile js_space (rev a)))"
    by (simp add: list_all_iff) (meson set_takeWhileD)
  have ends: "\<not> js_space (hd (js_trim m)) \<and> \<not> js_space (last (js_trim m))" if ne: "js_trim m \<noteq> []"
  proof -
    from ne t have dne: "d \<noteq> []" by simp
    then have "\<not> js_space (hd d)" unfolding d_def by (rule hd_dropWhile)
    with dne have l: "\<not> js_space (last (js_trim m))" by (simp add: t last_rev)
    from dne have "last d = last (rev a)" unfolding d_def by (rule last_dropWhile)
    moreover from dne have ane: "a \<noteq> []" by (auto simp: d_def)
    ultimately have "last d = hd a" by (simp add: last_rev)
    moreover from ane have "\<not> js_space (hd a)" unfolding a_def by (rule hd_dropWhile)
    ultimately have "\<not> js_space (hd (js_trim m))" using dne by (simp add: t hd_rev)
    with l show ?thesis by simp
  qed
  from split pre post ends show ?thesis by blast
qed

lemma callApi_dispatch_cases:
  "(transportMode st = Legacy \<longrightarrow> callApi_dispatch nm args st = (LegacyCall nm args, st))
   \<and> (transportMode st \<noteq> Legacy \<and> contentWindow st \<longrightarrow>
        fst (callApi_dispatch nm args st) = ModernCall (Inr (clock st, requestSeq st + 1))
        \<and> transportMode (snd (callApi_dispatch nm args st)) = transportMode st
        \<and> outbox (snd (callApi_dispatch nm args st)) =
            outbox st @ [Request ''bbx-api-call'' (clock st, requestSeq st + 1) (ApiCall nm args)])
   \<and> (transportMode st \<noteq> Legacy \<and> \<not> contentWindow st \<longrightarrow>
        callApi_dispatch nm args st = (ModernCall (Inl IframeNotReady), st))"
  by (simp add: callApi_dispatch_def request_available request_unavailable)

text \<open>How a call that passed the check of its method ends.\<close>

lemma callApi_dispatch_stage:
  "callApi_dispatch nm a st = (LegacyCall nm a, st)
   \<or> (\<exists>r st'. callApi_dispatch nm a st = (ModernCall r, st'))"
  by (cases "request ''bbx-api-call'' (ApiCall nm a) (Some (requestTimeoutMs st)) st")
    (simp add: callApi_dispatch_def)

lemma callApi_dispatched:
  assumes "callApi_start method args st = (AwaitReady m a, st)"
  shows "\<exists>st'. callApi method args probe st = callApi_dispatch (js_trim m) a st'"
proof -
  define st1 where "st1 = (if isReady st then st else ensureReadyTimeout st)"
  have c: "callApi method args probe st =
      (case callApi_ready m a st1 of
         (AwaitProbe nm a' (Inl err), st2) \<Rightarrow> callApi_probed nm a' (Rejected err) st2
       | (AwaitProbe nm a' (Inr rid), st2) \<Rightarrow>
           callApi_probed nm a' probe (settle_request rid probe st2)
       | r \<Rightarrow> r)"
    using assms by (simp add: callApi_def st1_def)
  show ?thesis
  proof (cases "transportMode st1 = Unknown")
    case False
    then have r: "callApi_ready m a st1 = callApi_dispatch (js_trim m) a st1"
      by (simp add: callApi_ready_def Let_def)
    from callApi_dispatch_stage [of "js_trim m" a st1]
    have "callApi method args probe st = callApi_dispatch (js_trim m) a st1"
      unfolding c r by auto
    then show ?thesis by blast
  next
    case True
    show ?thesis
    proof (cases "contentWindow st1")
      case False
      with True have "callApi_ready m a st1 =
          (AwaitProbe (js_trim m) a (Inl IframeNotReady), st1)"
        by (simp add: callApi_ready_def Let_def resolveTransport_start_def request_unavailable)
      then have "callApi method args probe st =
          callApi_probed (js_trim m) a (Rejected IframeNotReady) st1"
        unfolding c by simp
      then show ?thesis unfolding callApi_probed_def by blast
    next
      case w: True
      with True have "\<exists>rid st2. callApi_ready m a st1 =
          (AwaitProbe (js_trim m) a (Inr rid), st2)"
        by (simp add: callApi_ready_def Let_def resolveTransport_start_def request_available)
      then obtain rid st2 where "callApi_ready m a st1 =
          (AwaitProbe (js_trim m) a (Inr rid), st2)" by blast
      then have "callApi method args probe st =
          callApi_probed (js_trim m) a probe (settle_request rid probe st2)"
        unfolding c by simp
      then show ?thesis unfolding callApi_probed_def by blast
    qed
  qed
qed

text \<open>
  C10. When the method is not a string, or is a string that trims to the empty string,
  \<open>callApi\<close> rejects with the error \<open>callApi(method, ...args) requires a non-empty method
  string.\<close> before its first \<open>await\<close>, the state as it was (so nothing was posted and
  no event dispatched). For every other method \<open>m\<close> the call ends in the legacy
  dispatch of \<open>js_trim m\<close> with the arguments given, or in the modern request whose data
  are \<open>js_trim m\<close> and the arguments (a request that is rejected at once when the frame
  has no window); and \<open>js_trim m\<close> is \<open>m\<close> without the white space before and after it.
\<close>

theorem callApi_method_checked_and_trimmed:
  "(\<forall>method. (\<forall>m. method = DPrim (JStr m) \<longrightarrow> js_trim m = []) \<longrightarrow>
        callApi_start method args st =
          (Failed ''callApi(method, ...args) requires a non-empty method string.'', st)
        \<and> callApi method args probe st =
          (Failed ''callApi(method, ...args) requires a non-empty method string.'', st))
   \<and> (\<forall>m. js_trim m \<noteq> [] \<longrightarrow>
        callApi_start (DPrim (JStr m)) args st = (AwaitReady m args, st)
        \<and> ((transportMode (snd (callApi (DPrim (JStr m)) args probe st)) = Legacy
              \<and> fst (callApi (DPrim (JStr m)) args probe st) = LegacyCall (js_trim m) args)
           \<or> (transportMode (snd (callApi (DPrim (JStr m)) args probe st)) \<noteq> Legacy
              \<and> (\<exists>rid. fst (callApi (DPrim (JStr m)) args probe st) = ModernCall (Inr rid)
                    \<and> last (outbox (snd (callApi (DPrim (JStr m)) args probe st))) =
                        Request ''bbx-api-call'' rid (ApiCall (js_trim m) args)))
           \<or> (transportMode (snd (callApi (DPrim (JStr m)) args probe st)) \<noteq> Legacy
              \<and> fst (callApi (DPrim (JStr m)) args probe st) = ModernCall (Inl IframeNotReady)))
        \<and> (\<exists>pre post. m = pre @ js_trim m @ post
              \<and> list_all js_space pre \<and> list_all js_space post
              \<and> \<not> js_space (hd (js_trim m)) \<and> \<not> js_space (last (js_trim m))))"
proof -
  have bad: "callApi_start meth args st =
          (Failed ''callApi(method, ...args) requires a non-empty method string.'', st)
        \<and> callApi meth args probe st =
          (Failed ''callApi(method, ...args) requires a non-empty method string.'', st)"
    if "\<forall>m. meth = DPrim (JStr m) \<longrightarrow> js_trim m = []" for meth
  proof -
    from that have "callApi_start meth args st =
          (Failed ''callApi(method, ...args) requires a non-empty method string.'', st)"
      by (simp add: callApi_start_def split: jsdata.splits jsval.splits)
    then show ?thesis by (simp add: callApi_def)
  qed
  have good: "callApi_start (DPrim (JStr m)) args st = (AwaitReady m args, st)
        \<and> ((transportMode (snd (callApi (DPrim (JStr m)) args probe st)) = Legacy
              \<and> fst (callApi (DPrim (JStr m)) args probe st) = LegacyCall (js_trim m) args)
           \<or> (transportMode (snd (callApi (DPrim (JStr m)) args probe st)) \<noteq> Legacy
              \<and> (\<exists>rid. fst (callApi (DPrim (JStr m)) args probe st) = ModernCall (Inr rid)
                    \<and> last (outbox (snd (callApi (DPrim (JStr m)) args probe st))) =
                        Request ''bbx-api-call'' rid (ApiCall (js_trim m) args)))
           \<or> (transportMode (snd (callApi (DPrim (JStr m)) args probe st)) \<noteq> Legacy
              \<and> fst (callApi (DPrim (JStr m)) args probe st) = ModernCall (Inl IframeNotReady)))
        \<and> (\<exists>pre post. m = pre @ js_trim m @ post
              \<and> list_all js_space pre \<and> list_all js_space post
              \<and> \<not> js_space (hd (js_trim m)) \<and> \<not> js_space (last (js_trim m)))"
    if ne: "js_trim m \<noteq> []" for m
  proof -
    from ne have start: "callApi_start (DPrim (JStr m)) args st = (AwaitReady m args, st)"
      by (simp add: callApi_start_def)
    from callApi_dispatched [OF start, of probe]
    obtain st' where d: "callApi (DPrim (JStr m)) args probe st =
        callApi_dispatch (js_trim m) args st'" by blast
    have ends: "(transportMode (snd (callApi (DPrim (JStr m)) args probe st)) = Legacy
              \<and> fst (callApi (DPrim (JStr m)) args probe st) = LegacyCall (js_trim m) args)
           \<or> (transportMode (snd (callApi (DPrim (JStr m)) args probe st)) \<noteq> Legacy
              \<and> (\<exists>rid. fst (callApi (DPrim (JStr m)) args probe st) = ModernCall (Inr rid)
                    \<and> last (outbox (snd (callApi (DPrim (JStr m)) args probe st))) =
                        Request ''bbx-api-call'' rid (ApiCall (js_trim m) args)))
           \<or> (transportMode (snd (callApi (DPrim (JStr m)) args probe st)) \<noteq> Legacy
              \<and> fst (callApi (DPrim (JStr m)) args probe st) = ModernCall (Inl IframeNotReady))"
      unfolding d
      using callApi_dispatch_cases [of st' "js_trim m" args]
      by (cases "transportMode st' = Legacy"; cases "contentWindow st'") simp_all
    from js_trim_surrounding [of m] ne start ends show ?thesis by blast
  qed
  from bad good show ?thesis by blast
qed

theorem callApi_method_checked_and_trimmed_witness:
  "callApi (DPrim (JStr [CHR 0x20, CHR 0x09]))
      [] (Rejected (TimedOut ''bbx-api-call'' 5000))
      (connectedCallback (Some ''https://bbx.example/login'') constructed) =
     (Failed ''callApi(method, ...args) requires a non-empty method string.'',
      connectedCallback (Some ''https://bbx.example/login'') constructed)
   \<and> callApi (DPrim (JInt 7)) [] (Rejected (TimedOut ''bbx-api-call'' 5000)) constructed =
     (Failed ''callApi(method, ...args) requires a non-empty method string.'', constructed)
   \<and> js_trim ''  getTabs '' = ''getTabs''
   \<and> fst (callApi (DPrim (JStr ''  getTabs '')) [] (Rejected (TimedOut ''bbx-api-call'' 5000))
        (connectedCallback (Some ''https://bbx.example/login'') constructed)) =
       LegacyCall ''getTabs'' []"
proof -
  let ?st = "connectedCallback (Some ''https://bbx.example/login'') constructed"
  let ?p = "Rejected (TimedOut ''bbx-api-call'' 5000)"
  note main = callApi_method_checked_and_trimmed
  have blank: "\<forall>m. DPrim (JStr [CHR 0x20, CHR 0x09]) = DPrim (JStr m) \<longrightarrow> js_trim m = []"
    by (simp add: js_trim_def js_space_def)
  have a: "callApi (DPrim (JStr [CHR 0x20, CHR 0x09])) [] ?p ?st =
     (Failed ''callApi(method, ...args) requires a non-empty method string.'', ?st)"
    using main [of "[]" ?st ?p, THEN conjunct1, THEN spec, THEN mp, OF blank] by simp
  have num: "\<forall>m. DPrim (JInt 7) = DPrim (JStr m) \<longrightarrow> js_trim m = []" by simp
  have b: "callApi (DPrim (JInt 7)) [] ?p constructed =
     (Failed ''callApi(method, ...args) requires a non-empty method string.'', constructed)"
    using main [of "[]" constructed ?p, THEN conjunct1, THEN spec, THEN mp, OF num] by simp
  have t: "js_trim ''  getTabs '' = ''getTabs''" by (simp add: js_trim_def js_space_def)
  then have ne: "js_trim ''  getTabs '' \<noteq> []" by simp
  have mode: "transportMode (snd (callApi (DPrim (JStr ''  getTabs '')) [] ?p ?st)) = Legacy"
    by (simp add: callApi_def callApi_start_def callApi_ready_def callApi_probed_def
        callApi_dispatch_def resolveTransport_start_def resolveTransport_finish_def
        ensureReadyTimeout_def setReady_def stopInitPing_def dispatchEvent_def request_def
        settle_request_def settle_promise_def pending_delete_def clearTimeout_def
        requestTimeoutMs_def connectedCallback_def constructed_def t Let_def)
  have c: "fst (callApi (DPrim (JStr ''  getTabs '')) [] ?p ?st) = LegacyCall ''getTabs'' []"
    using main [of "[]" ?st ?p, THEN conjunct2, THEN spec, THEN mp, OF ne] mode by (simp add: t)
  from a b t c show ?thesis by (intro conjI)
qed

section \<open>Facts about the liveness prober\<close>














section \<open>Claims about the liveness prober\<close>




end
